theory Spec2Isabelle
  imports Complex_Main
begin

section \<open>Values of the request and of the stored documents\<close>

text \<open>
  The controller reads \<^verbatim>\<open>req.body\<close>, the JSON body parsed by \<^verbatim>\<open>express.json()\<close>.
  A field of the body is modelled as an option: \<open>None\<close> is JavaScript's \<^verbatim>\<open>undefined\<close>
  (the field is absent), \<open>Some v\<close> a value of the type the schema gives the field, a
  string for \<^verbatim>\<open>name\<close> and \<^verbatim>\<open>description\<close>, a number for the quantities and for
  \<^verbatim>\<open>amount\<close>. Bodies that carry \<^verbatim>\<open>null\<close>, booleans, or values of another type in
  these fields are outside this development.

  A JavaScript number is an IEEE 754 double. A finite double is a rational, and the
  model keeps it as one: \<open>number\<close> is the type of the finite values, and a number in a
  body is the double that \<^verbatim>\<open>JSON.parse\<close> produced. The sums and differences the
  controller computes are rounded to the nearest double (\<open>to_double\<close> below), as
  \<^verbatim>\<open>+=\<close> and \<^verbatim>\<open>-=\<close> do, and may overflow to an infinity. Strings are sequences of
  characters with code below 256.
\<close>

type_synonym number = rat

text \<open>\<^verbatim>\<open>Number.isInteger(x)\<close> for a number \<open>x\<close>: its fractional part is zero.\<close>

definition Number_isInteger :: "number \<Rightarrow> bool" where
  "Number_isInteger q = (frac q = 0)"

text \<open>
  The result of an addition or subtraction of two finite doubles: a finite double or an
  infinity (\<^verbatim>\<open>NaN\<close> cannot arise from two finite operands).
\<close>

datatype double = Finite number | Infinity | MinusInfinity

text \<open>Rounding to the nearest integer, a tie going to the even one.\<close>

definition round_half_even :: "rat \<Rightarrow> int" where
  "round_half_even q =
     (if q - of_int \<lfloor>q\<rfloor> < 1 / 2 then \<lfloor>q\<rfloor>
      else if 1 / 2 < q - of_int \<lfloor>q\<rfloor> then \<lfloor>q\<rfloor> + 1
      else if even \<lfloor>q\<rfloor> then \<lfloor>q\<rfloor> else \<lfloor>q\<rfloor> + 1)"

text \<open>The number of binary digits of a positive integer.\<close>

function bit_length :: "int \<Rightarrow> int" where
  "bit_length n = (if n \<le> 0 then 0 else 1 + bit_length (n div 2))"
  by pat_completeness auto
termination
proof (relation "measure nat")
  show "wf (measure nat)" by simp
next
  fix n :: int
  assume "\<not> n \<le> 0"
  then have "n div 2 < n" by simp
  with \<open>\<not> n \<le> 0\<close> show "(n div 2, n) \<in> measure nat" by simp
qed

text \<open>The binary exponent of \<open>x \<noteq> 0\<close>: \<open>2 powi exponent x \<le> \<bar>x\<bar> < 2 powi (exponent x + 1)\<close>.\<close>

definition exponent :: "rat \<Rightarrow> int" where
  "exponent x =
     (if 1 \<le> \<bar>x\<bar> then bit_length \<lfloor>\<bar>x\<bar>\<rfloor> - 1
      else - bit_length (\<lceil>1 / \<bar>x\<bar>\<rceil> - 1))"

text \<open>
  The double nearest to a rational: 53 significant binary digits, the smallest unit
  \<open>2 powi - 1074\<close>, ties to even, and an infinity from \<open>2 ^ 1024\<close> on.
\<close>

definition to_double :: "rat \<Rightarrow> double" where
  "to_double x =
     (if x = 0 then Finite 0
      else
        (let u = max (exponent x - 52) (- 1074);
             d = of_int (round_half_even (x / 2 powi u)) * 2 powi u
         in if 2 ^ 1024 \<le> d then Infinity
            else if d \<le> - (2 ^ 1024) then MinusInfinity
            else Finite d))"

declare bit_length.simps [simp del]

text \<open>\<^verbatim>\<open>x < c\<close> for the result of an operation and a finite \<open>c\<close>.\<close>

definition double_lt :: "double \<Rightarrow> number \<Rightarrow> bool" where
  "double_lt x c = (case x of Finite q \<Rightarrow> q < c | Infinity \<Rightarrow> False | MinusInfinity \<Rightarrow> True)"

text \<open>\<^verbatim>\<open>!x\<close> for a field that is absent or a number: \<^verbatim>\<open>undefined\<close> and \<open>0\<close> are falsy.\<close>

definition not_number :: "number option \<Rightarrow> bool" where
  "not_number x = (case x of None \<Rightarrow> True | Some q \<Rightarrow> q = 0)"

text \<open>\<^verbatim>\<open>!x\<close> for a field that is absent or a string: \<^verbatim>\<open>undefined\<close> and \<^verbatim>\<open>''\<close> are falsy.\<close>

definition not_string :: "string option \<Rightarrow> bool" where
  "not_string x = (case x of None \<Rightarrow> True | Some s \<Rightarrow> s = [])"

text \<open>
  \<^verbatim>\<open>x <= c\<close> and \<^verbatim>\<open>x < c\<close> for a field that is absent or a number: \<^verbatim>\<open>undefined\<close>
  converts to \<^verbatim>\<open>NaN\<close>, and every comparison with \<^verbatim>\<open>NaN\<close> is false.
\<close>

definition number_le :: "number option \<Rightarrow> number \<Rightarrow> bool" where
  "number_le x c = (case x of None \<Rightarrow> False | Some q \<Rightarrow> q \<le> c)"

definition number_lt :: "number option \<Rightarrow> number \<Rightarrow> bool" where
  "number_lt x c = (case x of None \<Rightarrow> False | Some q \<Rightarrow> q < c)"

text \<open>\<^verbatim>\<open>String.prototype.trim\<close>, used by the schema option \<^verbatim>\<open>trim: true\<close>.\<close>

definition is_white_space :: "char \<Rightarrow> bool" where
  "is_white_space c =
     (c \<in> set [CHR 0x09, CHR 0x0A, CHR 0x0B, CHR 0x0C, CHR 0x0D, CHR 0x20, CHR 0xA0])"

definition trim :: "string \<Rightarrow> string" where
  "trim s = rev (dropWhile is_white_space (rev (dropWhile is_white_space s)))"

subsection \<open>The Product schema (src/models/Product.js)\<close>

text \<open>
  A document of the \<^verbatim>\<open>Product\<close> model. \<open>doc_id\<close> is the field \<^verbatim>\<open>_id\<close>. The schema
  option \<^verbatim>\<open>timestamps: true\<close> adds \<^verbatim>\<open>createdAt\<close> and \<^verbatim>\<open>updatedAt\<close>, which Mongoose
  fills from the wall clock; they are left out of the model.
\<close>

type_synonym object_id = string

record product =
  doc_id :: object_id
  name :: "string option"
  description :: "string option"
  stock_quantity :: number
  low_stock_threshold :: number

text \<open>The four fields both \<^verbatim>\<open>createProduct\<close> and \<^verbatim>\<open>updateProduct\<close> take from the body.\<close>

record product_body =
  body_name :: "string option"
  body_description :: "string option"
  body_stock_quantity :: "number option"
  body_low_stock_threshold :: "number option"

text \<open>
  What Mongoose throws. A \<^verbatim>\<open>ValidationError\<close> carries the failed paths, each with the
  message of its first failed validator; \<^verbatim>\<open>MongoServerError\<close> stands for any other
  failure of the store (here: a duplicate \<^verbatim>\<open>_id\<close> on insert).
\<close>

datatype error =
    CastError
  | ValidationError "(string \<times> string) list"
  | MongoServerError

text \<open>
  The validators of a path run in the order the schema lists them, and the first that
  fails gives the message: \<^verbatim>\<open>required\<close> for \<^verbatim>\<open>name\<close>; \<^verbatim>\<open>min: 0\<close>, then
  \<^verbatim>\<open>Number.isInteger\<close>, for the two quantities.
\<close>

definition validate_name :: "string option \<Rightarrow> (string \<times> string) list" where
  "validate_name v =
     (if not_string v then [(''name'', ''Product name is required'')] else [])"

definition validate_stock_quantity :: "number \<Rightarrow> (string \<times> string) list" where
  "validate_stock_quantity v =
     (if v < 0 then [(''stock_quantity'', ''Stock quantity cannot be negative'')]
      else if \<not> Number_isInteger v
        then [(''stock_quantity'', ''Stock quantity must be an integer'')]
      else [])"

definition validate_low_stock_threshold :: "number \<Rightarrow> (string \<times> string) list" where
  "validate_low_stock_threshold v =
     (if v < 0 then [(''low_stock_threshold'', ''Low stock threshold cannot be negative'')]
      else if \<not> Number_isInteger v
        then [(''low_stock_threshold'', ''Low stock threshold must be an integer'')]
      else [])"

text \<open>Validation of a whole document, as \<^verbatim>\<open>save()\<close> runs it.\<close>

definition validate :: "product \<Rightarrow> (string \<times> string) list" where
  "validate p =
     validate_name (name p) @ validate_stock_quantity (stock_quantity p)
       @ validate_low_stock_threshold (low_stock_threshold p)"

text \<open>
  \<^verbatim>\<open>new Product({name, description, stock_quantity, low_stock_threshold})\<close>: strings are
  trimmed, an absent quantity takes the schema's default (0 and 10), an absent
  description stays absent. \<open>oid\<close> is the \<^verbatim>\<open>ObjectId\<close> the constructor draws.
\<close>

definition new_Product :: "object_id \<Rightarrow> product_body \<Rightarrow> product" where
  "new_Product oid b =
     \<lparr> doc_id = oid,
       name = map_option trim (body_name b),
       description = map_option trim (body_description b),
       stock_quantity = (case body_stock_quantity b of None \<Rightarrow> 0 | Some q \<Rightarrow> q),
       low_stock_threshold = (case body_low_stock_threshold b of None \<Rightarrow> 10 | Some q \<Rightarrow> q) \<rparr>"

section \<open>The store\<close>

text \<open>
  The collection is the list of its documents in insertion order. Requests are handled
  one at a time: every operation below runs to its end on the collection it was given.

  Mongoose is a library the repository calls, not code of the repository; its
  operations are modelled by what the controller relies on: documents are cast and
  validated against the schema before they are written, and an update sets only the
  keys that have a value.

  \<^verbatim>\<open>findById\<close>, \<^verbatim>\<open>findByIdAndUpdate\<close> and \<^verbatim>\<open>findByIdAndDelete\<close> first cast the path
  parameter \<^verbatim>\<open>req.params.id\<close> to an \<^verbatim>\<open>ObjectId\<close> and throw \<^verbatim>\<open>CastError\<close> when that
  fails. Which strings are ids is decided by the driver; the operations take the cast
  as the parameter \<open>cast\<close>, and every property below holds for every cast.
\<close>

type_synonym store = "product list"

type_synonym caster = "string \<Rightarrow> object_id option"

definition lookup :: "store \<Rightarrow> object_id \<Rightarrow> product option" where
  "lookup db i = find (\<lambda>p. doc_id p = i) db"

definition replace :: "store \<Rightarrow> product \<Rightarrow> store" where
  "replace db p = map (\<lambda>q. if doc_id q = doc_id p then p else q) db"

definition findById :: "caster \<Rightarrow> store \<Rightarrow> string \<Rightarrow> error + product option" where
  "findById cast db rid =
     (case cast rid of None \<Rightarrow> Inl CastError | Some i \<Rightarrow> Inr (lookup db i))"

text \<open>\<^verbatim>\<open>Product.find(filter)\<close>; \<^verbatim>\<open>Product.find()\<close> is \<open>find_all (\<lambda>_. True)\<close>.\<close>

definition find_all :: "(product \<Rightarrow> bool) \<Rightarrow> store \<Rightarrow> product list" where
  "find_all cond db = filter cond db"

text \<open>\<^verbatim>\<open>save()\<close> of a new document: validate, then insert.\<close>

definition save_new :: "store \<Rightarrow> product \<Rightarrow> error + store" where
  "save_new db p =
     (case validate p of
        e # es \<Rightarrow> Inl (ValidationError (e # es))
      | [] \<Rightarrow> (if lookup db (doc_id p) \<noteq> None then Inl MongoServerError
               else Inr (db @ [p])))"

text \<open>\<^verbatim>\<open>save()\<close> of a document that was read from the collection: validate, then write.\<close>

definition save :: "store \<Rightarrow> product \<Rightarrow> error + store" where
  "save db p =
     (case validate p of
        e # es \<Rightarrow> Inl (ValidationError (e # es))
      | [] \<Rightarrow> Inr (replace db p))"

text \<open>
  \<^verbatim>\<open>findByIdAndUpdate(id, update, { new: true, runValidators: true })\<close>. Keys of the
  update whose value is \<^verbatim>\<open>undefined\<close> are dropped; the remaining ones are cast (strings
  trimmed), checked by the validators of their paths, and set. The update validators
  report the failed paths from the last key of the update to the first. The result is
  the document after the update, or \<^verbatim>\<open>null\<close> when no document has the id.
\<close>

definition validate_update :: "product_body \<Rightarrow> (string \<times> string) list" where
  "validate_update u =
     (case body_low_stock_threshold u of None \<Rightarrow> []
      | Some q \<Rightarrow> validate_low_stock_threshold q)
     @ (case body_stock_quantity u of None \<Rightarrow> [] | Some q \<Rightarrow> validate_stock_quantity q)
     @ (case body_name u of None \<Rightarrow> [] | Some s \<Rightarrow> validate_name (Some (trim s)))"

definition apply_update :: "product_body \<Rightarrow> product \<Rightarrow> product" where
  "apply_update u p =
     p \<lparr> name := (case body_name u of None \<Rightarrow> name p | Some s \<Rightarrow> Some (trim s)),
         description :=
           (case body_description u of None \<Rightarrow> description p | Some s \<Rightarrow> Some (trim s)),
         stock_quantity :=
           (case body_stock_quantity u of None \<Rightarrow> stock_quantity p | Some q \<Rightarrow> q),
         low_stock_threshold :=
           (case body_low_stock_threshold u of None \<Rightarrow> low_stock_threshold p
            | Some q \<Rightarrow> q) \<rparr>"

definition findByIdAndUpdate ::
  "caster \<Rightarrow> store \<Rightarrow> string \<Rightarrow> product_body \<Rightarrow> error + (store \<times> product option)" where
  "findByIdAndUpdate cast db rid u =
     (case cast rid of
        None \<Rightarrow> Inl CastError
      | Some i \<Rightarrow>
          (case validate_update u of
             e # es \<Rightarrow> Inl (ValidationError (e # es))
           | [] \<Rightarrow>
               (case lookup db i of
                  None \<Rightarrow> Inr (db, None)
                | Some p \<Rightarrow> Inr (replace db (apply_update u p), Some (apply_update u p)))))"

definition findByIdAndDelete ::
  "caster \<Rightarrow> store \<Rightarrow> string \<Rightarrow> error + (store \<times> product option)" where
  "findByIdAndDelete cast db rid =
     (case cast rid of
        None \<Rightarrow> Inl CastError
      | Some i \<Rightarrow>
          (case lookup db i of
             None \<Rightarrow> Inr (db, None)
           | Some p \<Rightarrow> Inr (filter (\<lambda>q. doc_id q \<noteq> i) db, Some p)))"

section \<open>The controller\<close>

text \<open>
  A handler takes the collection and the request and returns the collection after the
  request together with the response: the status code and the JSON body.
  \<open>ErrorJson m\<close> is the body \<^verbatim>\<open>{ error: m }\<close>; the message of a Mongoose
  \<^verbatim>\<open>ValidationError\<close> is kept as the list of its failed paths.
\<close>

datatype message = Text string | ValidationFailed "(string \<times> string) list"

datatype body =
    ErrorJson message
  | ProductJson product
  | ProductListJson "product list"
  | DeletedJson string product

type_synonym response = "nat \<times> body"

definition createProduct :: "store \<Rightarrow> object_id \<Rightarrow> product_body \<Rightarrow> store \<times> response" where
  "createProduct db oid b =
     (if not_string (body_name b)
        then (db, 400, ErrorJson (Text ''Product name is required''))
      else
        (case save_new db (new_Product oid b) of
           Inr db' \<Rightarrow> (db', 201, ProductJson (new_Product oid b))
         | Inl (ValidationError es) \<Rightarrow> (db, 400, ErrorJson (ValidationFailed es))
         | Inl _ \<Rightarrow> (db, 500, ErrorJson (Text ''Server error while creating product''))))"

definition getAllProducts :: "store \<Rightarrow> store \<times> response" where
  "getAllProducts db = (db, 200, ProductListJson (find_all (\<lambda>_. True) db))"

definition getProductById :: "caster \<Rightarrow> store \<Rightarrow> string \<Rightarrow> store \<times> response" where
  "getProductById cast db rid =
     (case findById cast db rid of
        Inr None \<Rightarrow> (db, 404, ErrorJson (Text ''Product not found''))
      | Inr (Some product) \<Rightarrow> (db, 200, ProductJson product)
      | Inl CastError \<Rightarrow> (db, 400, ErrorJson (Text ''Invalid product ID''))
      | Inl _ \<Rightarrow> (db, 500, ErrorJson (Text ''Server error while fetching product'')))"

definition updateProduct ::
  "caster \<Rightarrow> store \<Rightarrow> string \<Rightarrow> product_body \<Rightarrow> store \<times> response" where
  "updateProduct cast db rid b =
     (if body_stock_quantity b \<noteq> None \<and> number_lt (body_stock_quantity b) 0
        then (db, 400, ErrorJson (Text ''Stock quantity cannot be negative''))
      else if body_low_stock_threshold b \<noteq> None \<and> number_lt (body_low_stock_threshold b) 0
        then (db, 400, ErrorJson (Text ''Low stock threshold cannot be negative''))
      else
        (case findByIdAndUpdate cast db rid b of
           Inr (db', None) \<Rightarrow> (db', 404, ErrorJson (Text ''Product not found''))
         | Inr (db', Some product) \<Rightarrow> (db', 200, ProductJson product)
         | Inl (ValidationError es) \<Rightarrow> (db, 400, ErrorJson (ValidationFailed es))
         | Inl CastError \<Rightarrow> (db, 400, ErrorJson (Text ''Invalid product ID''))
         | Inl _ \<Rightarrow> (db, 500, ErrorJson (Text ''Server error while updating product''))))"

definition deleteProduct :: "caster \<Rightarrow> store \<Rightarrow> string \<Rightarrow> store \<times> response" where
  "deleteProduct cast db rid =
     (case findByIdAndDelete cast db rid of
        Inr (db', None) \<Rightarrow> (db', 404, ErrorJson (Text ''Product not found''))
      | Inr (db', Some product) \<Rightarrow>
          (db', 200, DeletedJson ''Product deleted successfully'' product)
      | Inl CastError \<Rightarrow> (db, 400, ErrorJson (Text ''Invalid product ID''))
      | Inl _ \<Rightarrow> (db, 500, ErrorJson (Text ''Server error while deleting product'')))"

text \<open>
  In the two stock handlers \<^verbatim>\<open>amount\<close> is absent or a number. Once the first check has
  passed it is a number \<open>a\<close>; \<^verbatim>\<open>Number.isInteger(undefined)\<close> is false.

  \<^verbatim>\<open>product.stock_quantity += amount\<close> stores the double nearest to the sum, and
  \<^verbatim>\<open>-=\<close> the one nearest to the difference. When that is an infinity, \<^verbatim>\<open>save()\<close>
  throws a \<^verbatim>\<open>ValidationError\<close> (an infinity is no integer, and the negative one is
  below the minimum), which these two handlers answer with 500.
\<close>

definition increaseStock ::
  "caster \<Rightarrow> store \<Rightarrow> string \<Rightarrow> number option \<Rightarrow> store \<times> response" where
  "increaseStock cast db rid amount =
     (if not_number amount \<or> number_le amount 0
        then (db, 400, ErrorJson (Text ''Amount must be a positive number''))
      else
        (case amount of
           None \<Rightarrow> (db, 400, ErrorJson (Text ''Amount must be an integer''))
         | Some a \<Rightarrow>
             if \<not> Number_isInteger a
               then (db, 400, ErrorJson (Text ''Amount must be an integer''))
             else
               (case findById cast db rid of
                  Inr None \<Rightarrow> (db, 404, ErrorJson (Text ''Product not found''))
                | Inr (Some product) \<Rightarrow>
                    (case to_double (stock_quantity product + a) of
                       Finite s \<Rightarrow>
                         (case save db (product \<lparr> stock_quantity := s \<rparr>) of
                            Inr db' \<Rightarrow>
                              (db', 200, ProductJson (product \<lparr> stock_quantity := s \<rparr>))
                          | Inl CastError \<Rightarrow>
                              (db, 400, ErrorJson (Text ''Invalid product ID''))
                          | Inl _ \<Rightarrow>
                              (db, 500,
                               ErrorJson (Text ''Server error while increasing stock'')))
                     | _ \<Rightarrow>
                         (db, 500, ErrorJson (Text ''Server error while increasing stock'')))
                | Inl CastError \<Rightarrow> (db, 400, ErrorJson (Text ''Invalid product ID''))
                | Inl _ \<Rightarrow>
                    (db, 500, ErrorJson (Text ''Server error while increasing stock'')))))"

definition decreaseStock ::
  "caster \<Rightarrow> store \<Rightarrow> string \<Rightarrow> number option \<Rightarrow> store \<times> response" where
  "decreaseStock cast db rid amount =
     (if not_number amount \<or> number_le amount 0
        then (db, 400, ErrorJson (Text ''Amount must be a positive number''))
      else
        (case amount of
           None \<Rightarrow> (db, 400, ErrorJson (Text ''Amount must be an integer''))
         | Some a \<Rightarrow>
             if \<not> Number_isInteger a
               then (db, 400, ErrorJson (Text ''Amount must be an integer''))
             else
               (case findById cast db rid of
                  Inr None \<Rightarrow> (db, 404, ErrorJson (Text ''Product not found''))
                | Inr (Some product) \<Rightarrow>
                    (if double_lt (to_double (stock_quantity product - a)) 0
                       then (db, 400, ErrorJson (Text ''Insufficient stock''))
                     else
                       (case to_double (stock_quantity product - a) of
                          Finite s \<Rightarrow>
                            (case save db (product \<lparr> stock_quantity := s \<rparr>) of
                               Inr db' \<Rightarrow>
                                 (db', 200, ProductJson (product \<lparr> stock_quantity := s \<rparr>))
                             | Inl CastError \<Rightarrow>
                                 (db, 400, ErrorJson (Text ''Invalid product ID''))
                             | Inl _ \<Rightarrow>
                                 (db, 500,
                                  ErrorJson (Text ''Server error while decreasing stock'')))
                        | _ \<Rightarrow>
                            (db, 500,
                             ErrorJson (Text ''Server error while decreasing stock''))))
                | Inl CastError \<Rightarrow> (db, 400, ErrorJson (Text ''Invalid product ID''))
                | Inl _ \<Rightarrow>
                    (db, 500, ErrorJson (Text ''Server error while decreasing stock'')))))"

definition getLowStockProducts :: "store \<Rightarrow> store \<times> response" where
  "getLowStockProducts db =
     (db, 200,
      ProductListJson (find_all (\<lambda>p. stock_quantity p < low_stock_threshold p) db))"

section \<open>The router (src/routes/productRoutes.js)\<close>

text \<open>
  A request as the router sees it: the method, the path under \<^verbatim>\<open>/api/products\<close> with its
  \<^verbatim>\<open>:id\<close> parameter, and the body fields its handler reads. \<open>POST_products\<close> also
  carries the \<^verbatim>\<open>ObjectId\<close> that \<^verbatim>\<open>new Product\<close> draws for the document.
\<close>

datatype request =
    GET_low_stock
  | POST_products object_id product_body
  | GET_products
  | GET_product string
  | PUT_product string product_body
  | DELETE_product string
  | PATCH_increase string "number option"
  | PATCH_decrease string "number option"

fun route :: "caster \<Rightarrow> store \<Rightarrow> request \<Rightarrow> store \<times> response" where
  "route cast db GET_low_stock = getLowStockProducts db"
| "route cast db (POST_products oid b) = createProduct db oid b"
| "route cast db GET_products = getAllProducts db"
| "route cast db (GET_product rid) = getProductById cast db rid"
| "route cast db (PUT_product rid b) = updateProduct cast db rid b"
| "route cast db (DELETE_product rid) = deleteProduct cast db rid"
| "route cast db (PATCH_increase rid amount) = increaseStock cast db rid amount"
| "route cast db (PATCH_decrease rid amount) = decreaseStock cast db rid amount"

text \<open>The collection after a sequence of requests, served one after the other.\<close>

fun serve :: "caster \<Rightarrow> store \<Rightarrow> request list \<Rightarrow> store" where
  "serve cast db [] = db"
| "serve cast db (r # rs) = serve cast (fst (route cast db r)) rs"

text \<open>
  One caster, for the examples: a string of 24 lower-case hexadecimal digits is the id it
  spells, and nothing else is an id.
\<close>

definition hex_cast :: caster where
  "hex_cast s =
     (if length s = 24 \<and> list_all (\<lambda>c. c \<in> set ''0123456789abcdef'') s then Some s else None)"

subsection \<open>Example data\<close>

text \<open>The documents of the test suite (tests/product.test.js) and of the README.\<close>

definition laptop_id :: string where
  "laptop_id = ''507f1f77bcf86cd799439011''"

definition laptop :: product where
  "laptop =
     \<lparr> doc_id = laptop_id, name = Some ''Laptop'', description = Some ''Dell XPS 15'',
       stock_quantity = 50, low_stock_threshold = 10 \<rparr>"

text \<open>The three products of the low-stock test, and one whose stock is its threshold.\<close>

definition low_stock_1 :: product where
  "low_stock_1 =
     \<lparr> doc_id = ''507f1f77bcf86cd799439012'', name = Some ''Low Stock Product 1'',
       description = None, stock_quantity = 5, low_stock_threshold = 10 \<rparr>"

definition low_stock_2 :: product where
  "low_stock_2 =
     \<lparr> doc_id = ''507f1f77bcf86cd799439013'', name = Some ''Low Stock Product 2'',
       description = None, stock_quantity = 8, low_stock_threshold = 15 \<rparr>"

definition normal_stock :: product where
  "normal_stock =
     \<lparr> doc_id = ''507f1f77bcf86cd799439014'', name = Some ''Normal Stock Product'',
       description = None, stock_quantity = 50, low_stock_threshold = 10 \<rparr>"

definition at_threshold :: product where
  "at_threshold =
     \<lparr> doc_id = ''507f1f77bcf86cd799439015'', name = Some ''At Threshold Product'',
       description = None, stock_quantity = 10, low_stock_threshold = 10 \<rparr>"

text \<open>Request bodies: the README's partial update, and updates of the stock alone.\<close>

definition rename_and_restock :: product_body where
  "rename_and_restock =
     \<lparr> body_name = Some ''Laptop Pro'', body_description = None,
       body_stock_quantity = Some 75, body_low_stock_threshold = None \<rparr>"

definition stock_only :: "number \<Rightarrow> product_body" where
  "stock_only q =
     \<lparr> body_name = None, body_description = None,
       body_stock_quantity = Some q, body_low_stock_threshold = None \<rparr>"

definition threshold_only :: "number \<Rightarrow> product_body" where
  "threshold_only t =
     \<lparr> body_name = None, body_description = None,
       body_stock_quantity = None, body_low_stock_threshold = Some t \<rparr>"

definition name_only :: "string \<Rightarrow> product_body" where
  "name_only s =
     \<lparr> body_name = Some s, body_description = None,
       body_stock_quantity = None, body_low_stock_threshold = None \<rparr>"

section \<open>Facts about numbers, validation and the collection\<close>

subsection \<open>Rounding to a double\<close>

lemma bit_length_nonneg: "0 \<le> bit_length n"
proof (induction n rule: bit_length.induct)
  case (1 n)
  then show ?case by (cases "n \<le> 0") (simp_all add: bit_length.simps[of n])
qed

lemma bit_length_pos: "0 < n \<Longrightarrow> 1 \<le> bit_length n"
  using bit_length_nonneg[of "n div 2"] by (simp add: bit_length.simps[of n])

lemma bit_length_bounds:
  "0 < n \<Longrightarrow> 2 ^ nat (bit_length n - 1) \<le> n \<and> n < 2 ^ nat (bit_length n)"
proof (induction n rule: bit_length.induct)
  case (1 n)
  show ?case
  proof (cases "n = 1")
    case True
    then show ?thesis by (simp add: bit_length.simps[of 1] bit_length.simps[of 0])
  next
    case False
    with 1 have h: "0 < n div 2" by simp
    with 1 have IH: "2 ^ nat (bit_length (n div 2) - 1) \<le> n div 2"
      "n div 2 < 2 ^ nat (bit_length (n div 2))" by simp_all
    have pos: "1 \<le> bit_length (n div 2)"
      using h by (rule bit_length_pos)
    have b: "bit_length n = 1 + bit_length (n div 2)"
      using 1(2) by (simp add: bit_length.simps[of n])
    have e: "nat (bit_length n - 1) = Suc (nat (bit_length (n div 2) - 1))"
      "nat (bit_length n) = Suc (nat (bit_length (n div 2)))"
      using b pos by simp_all
    show ?thesis unfolding e using IH by simp linarith
  qed
qed

lemma exponent_bounds:
  assumes "1 \<le> \<bar>x\<bar>"
  shows "0 \<le> exponent x" and "2 ^ nat (exponent x) \<le> \<bar>x\<bar>"
    and "\<bar>x\<bar> < 2 ^ nat (exponent x + 1)"
proof -
  let ?n = "\<lfloor>\<bar>x\<bar>\<rfloor>"
  have n: "0 < ?n" using assms by simp
  have e: "exponent x = bit_length ?n - 1" using assms by (simp add: exponent_def)
  from bit_length_pos[OF n] e show "0 \<le> exponent x" by simp
  from bit_length_bounds[OF n] have lo: "2 ^ nat (exponent x) \<le> ?n"
    and hi: "?n < 2 ^ nat (exponent x + 1)" by (simp_all add: e)
  have "(of_int (2 ^ nat (exponent x)) :: rat) \<le> of_int ?n"
    using lo by (simp only: of_int_le_iff)
  also have "\<dots> \<le> \<bar>x\<bar>" by simp
  finally show "2 ^ nat (exponent x) \<le> \<bar>x\<bar>" by simp
  from hi have "?n + 1 \<le> 2 ^ nat (exponent x + 1)" by simp
  then have "(of_int (?n + 1) :: rat) \<le> of_int (2 ^ nat (exponent x + 1))"
    by (simp only: of_int_le_iff)
  moreover have "\<bar>x\<bar> < of_int (?n + 1)" by simp linarith
  ultimately show "\<bar>x\<bar> < 2 ^ nat (exponent x + 1)" by simp
qed

lemma round_half_even_int: "q \<in> \<int> \<Longrightarrow> of_int (round_half_even q) = q"
  by (auto simp add: round_half_even_def elim!: Ints_cases)

lemma round_half_even_le: "round_half_even q \<le> \<lfloor>q\<rfloor> + 1"
  by (simp add: round_half_even_def)


lemma exponent_eq:
  assumes "2 ^ k \<le> \<bar>x\<bar>" and "\<bar>x\<bar> < 2 ^ Suc k"
  shows "exponent x = int k"
proof -
  have "(1::rat) \<le> 2 ^ k" by simp
  with assms(1) have one: "1 \<le> \<bar>x\<bar>" by linarith
  note b = exponent_bounds[OF one]
  from b(2) assms(2) have "(2::rat) ^ nat (exponent x) < 2 ^ Suc k" by linarith
  then have "nat (exponent x) < Suc k" by (simp only: power_strict_increasing_iff one_less_numeral_iff semiring_norm)
  moreover from b(3) assms(1) have "(2::rat) ^ k < 2 ^ nat (exponent x + 1)" by linarith
  then have "k < nat (exponent x + 1)" by (simp only: power_strict_increasing_iff one_less_numeral_iff semiring_norm)
  ultimately show ?thesis using b(1) by linarith
qed

lemma to_double_exact:
  assumes "x \<in> \<int>" and "\<bar>x\<bar> \<le> 2 ^ 53"
  shows "to_double x = Finite x"
proof (cases "x = 0")
  case True
  then show ?thesis by (simp add: to_double_def)
next
  case False
  with assms(1) have one: "1 \<le> \<bar>x\<bar>"
    by (auto elim!: Ints_cases)
  note b = exponent_bounds[OF one]
  let ?e = "exponent x"
  from b(2) assms(2) have "(2::rat) ^ nat ?e \<le> 2 ^ 53" by linarith
  then have e53: "nat ?e \<le> 53"
    by (simp only: power_increasing_iff one_less_numeral_iff semiring_norm)
  with b(1) have u: "max (?e - 52) (- 1074) = ?e - 52" by linarith
  have q: "x / 2 powi (?e - 52) \<in> \<int>"
  proof (cases "?e \<le> 52")
    case True
    then have "2 powi (?e - 52) = inverse ((2::rat) ^ nat (52 - ?e))"
      by (simp add: power_int_def power_one_over inverse_eq_divide)
    then have "x / 2 powi (?e - 52) = x * 2 ^ nat (52 - ?e)"
      by (simp add: field_simps)
    with assms(1) show ?thesis by simp
  next
    case False
    with e53 b(1) have e: "?e = 53" by linarith
    from b(2) have "2 ^ 53 \<le> \<bar>x\<bar>" by (simp add: e)
    with assms(2) have "\<bar>x\<bar> = 2 ^ 53" by linarith
    then have "x = 2 ^ 53 \<or> x = - (2 ^ 53)" by linarith
    then show ?thesis by (auto simp add: e)
  qed
  have p: "(2::rat) powi (?e - 52) \<noteq> 0" by simp
  have d: "of_int (round_half_even (x / 2 powi (?e - 52))) * 2 powi (?e - 52) = x"
    using round_half_even_int[OF q] p by simp
  have lt: "(2::rat) ^ 53 < 2 ^ 1024"
    by (rule power_strict_increasing) simp_all
  from assms(2) lt have "\<not> 2 ^ 1024 \<le> x" and "\<not> x \<le> - (2 ^ 1024)" by linarith+
  with False show ?thesis
    by (simp only: to_double_def Let_def u d if_False)
qed

lemma to_double_negative:
  assumes "x \<le> - 1"
  shows "to_double x = MinusInfinity \<or> (\<exists>d. to_double x = Finite d \<and> d < 0)"
proof -
  from assms have one: "1 \<le> \<bar>x\<bar>" and nz: "x \<noteq> 0" by linarith+
  note b = exponent_bounds[OF one]
  let ?e = "exponent x"
  let ?p = "(2::rat) powi (?e - 52)"
  from b(1) have u: "max (?e - 52) (- 1074) = ?e - 52" by linarith
  have pp: "0 < ?p" by simp
  have "?p * 2 ^ 52 = 2 powi ?e"
    using power_int_add[of "2::rat" "?e - 52" 52] by simp
  also have "\<dots> = 2 ^ nat ?e" using b(1) by (simp add: power_int_def)
  finally have "?p * 2 ^ 52 \<le> \<bar>x\<bar>" using b(2) by simp
  with assms have "?p * 2 ^ 52 \<le> - x" by linarith
  then have "x / ?p \<le> - (2 ^ 52)"
    using pp by (simp add: field_simps)
  then have "\<lfloor>x / ?p\<rfloor> \<le> - (2 ^ 52)"
    by (simp add: floor_le_iff)
  moreover have "(1::int) < 2 ^ 52" by simp
  ultimately have "round_half_even (x / ?p) < 0"
    using round_half_even_le[of "x / ?p"] by linarith
  then have "(of_int (round_half_even (x / ?p)) :: rat) < 0" by simp
  then have neg: "of_int (round_half_even (x / ?p)) * ?p < 0"
    using pp by (simp add: mult_less_0_iff)
  have "(0::rat) \<le> 2 ^ 1024" by (rule zero_le_power) simp
  with neg have "\<not> 2 ^ 1024 \<le> of_int (round_half_even (x / ?p)) * ?p"
    by linarith
  with nz neg show ?thesis
    by (simp only: to_double_def Let_def u if_False) auto
qed

lemma to_double_zero: "to_double 0 = Finite 0"
  by (simp add: to_double_def)

subsection \<open>Validation and the collection\<close>

lemma Number_isInteger_Ints: "Number_isInteger q \<longleftrightarrow> q \<in> \<int>"
  by (simp add: Number_isInteger_def frac_eq_0_iff)

lemma Number_isInteger_add:
  "Number_isInteger x \<Longrightarrow> Number_isInteger y \<Longrightarrow> Number_isInteger (x + y)"
  by (simp add: Number_isInteger_Ints)

lemma Number_isInteger_diff:
  "Number_isInteger x \<Longrightarrow> Number_isInteger y \<Longrightarrow> Number_isInteger (x - y)"
  by (simp add: Number_isInteger_Ints)

lemma lookup_SomeD: "lookup db i = Some p \<Longrightarrow> doc_id p = i \<and> p \<in> set db"
  unfolding lookup_def by (induction db) (auto split: if_splits)

lemma lookup_replace:
  "lookup db (doc_id p') = Some p \<Longrightarrow> lookup (replace db p') (doc_id p') = Some p'"
  unfolding lookup_def replace_def by (induction db) (auto split: if_splits)

lemma replace_absent:
  "i \<notin> doc_id ` set db \<Longrightarrow> map (\<lambda>q. if doc_id q = i then p else q) db = db"
  by (induction db) auto

lemma replace_same:
  "lookup db (doc_id p) = Some p \<Longrightarrow> distinct (map doc_id db) \<Longrightarrow> replace db p = db"
  unfolding lookup_def replace_def
  by (induction db) (auto split: if_splits simp: replace_absent)

lemma replace_replace:
  "doc_id p' = doc_id p \<Longrightarrow> replace (replace db p') p = replace db p"
  unfolding replace_def by (induction db) auto

lemma set_replace: "q \<in> set (replace db p) \<Longrightarrow> q = p \<or> q \<in> set db"
  unfolding replace_def by auto

lemma validate_stock_update:
  "validate p = [] \<Longrightarrow> 0 \<le> q \<Longrightarrow> Number_isInteger q
     \<Longrightarrow> validate (p\<lparr>stock_quantity := q\<rparr>) = []"
  by (simp add: validate_def validate_stock_quantity_def split: if_splits)

lemma validate_stock:
  "validate p = [] \<Longrightarrow> 0 \<le> stock_quantity p \<and> Number_isInteger (stock_quantity p)"
  by (auto simp add: validate_def validate_stock_quantity_def split: if_splits)

lemma lookup_replace_stock:
  assumes "lookup db i = Some p"
  shows "lookup (replace db (p\<lparr>stock_quantity := q\<rparr>)) i = Some (p\<lparr>stock_quantity := q\<rparr>)"
proof -
  have "doc_id (p\<lparr>stock_quantity := q\<rparr>) = i" using lookup_SomeD[OF assms] by simp
  then show ?thesis using lookup_replace[of db "p\<lparr>stock_quantity := q\<rparr>" p] assms by simp
qed

text \<open>What the two stock handlers answer on a stored product.\<close>

lemma integer_negative: "Number_isInteger x \<Longrightarrow> x < 0 \<Longrightarrow> x \<le> - 1"
  unfolding Number_isInteger_Ints by (auto elim!: Ints_cases)

lemma double_lt_negative: "x \<le> - 1 \<Longrightarrow> double_lt (to_double x) 0"
  using to_double_negative[of x] by (auto simp add: double_lt_def)

lemma to_double_safe:
  "Number_isInteger x \<Longrightarrow> 0 \<le> x \<Longrightarrow> x \<le> 2 ^ 53 \<Longrightarrow> to_double x = Finite x"
  unfolding Number_isInteger_Ints by (rule to_double_exact) simp_all

lemma increaseStock_stores:
  assumes "cast rid = Some i" and "lookup db i = Some p"
    and "0 < a" and "Number_isInteger a"
    and "to_double (stock_quantity p + a) = Finite s"
    and "validate (p\<lparr>stock_quantity := s\<rparr>) = []"
  shows "increaseStock cast db rid (Some a) =
           (replace db (p\<lparr>stock_quantity := s\<rparr>), 200,
            ProductJson (p\<lparr>stock_quantity := s\<rparr>))"
  using assms
  by (simp add: increaseStock_def not_number_def number_le_def findById_def save_def)

lemma decreaseStock_stores:
  assumes "cast rid = Some i" and "lookup db i = Some p"
    and "0 < a" and "Number_isInteger a"
    and "to_double (stock_quantity p - a) = Finite s" and "\<not> s < 0"
    and "validate (p\<lparr>stock_quantity := s\<rparr>) = []"
  shows "decreaseStock cast db rid (Some a) =
           (replace db (p\<lparr>stock_quantity := s\<rparr>), 200,
            ProductJson (p\<lparr>stock_quantity := s\<rparr>))"
  using assms
  by (simp add: decreaseStock_def not_number_def number_le_def findById_def save_def
      double_lt_def)

lemma decreaseStock_refuses:
  assumes "cast rid = Some i" and "lookup db i = Some p"
    and "0 < a" and "Number_isInteger a"
    and "double_lt (to_double (stock_quantity p - a)) 0"
  shows "decreaseStock cast db rid (Some a)
           = (db, 400, ErrorJson (Text ''Insufficient stock''))"
  using assms
  by (simp add: decreaseStock_def not_number_def number_le_def findById_def)

lemma increaseStock_result:
  assumes "cast rid = Some i" and "lookup db i = Some p" and "validate p = []"
    and "0 < a" and "Number_isInteger a" and "stock_quantity p + a \<le> 2 ^ 53"
  shows "increaseStock cast db rid (Some a) =
           (replace db (p\<lparr>stock_quantity := stock_quantity p + a\<rparr>), 200,
            ProductJson (p\<lparr>stock_quantity := stock_quantity p + a\<rparr>))"
proof -
  from assms(3) have s: "0 \<le> stock_quantity p" "Number_isInteger (stock_quantity p)"
    using validate_stock by blast+
  with assms have i: "Number_isInteger (stock_quantity p + a)"
    and n: "0 \<le> stock_quantity p + a"
    by (simp_all add: Number_isInteger_add)
  from to_double_safe[OF i n assms(6)]
  have d: "to_double (stock_quantity p + a) = Finite (stock_quantity p + a)" .
  have v: "validate (p\<lparr>stock_quantity := stock_quantity p + a\<rparr>) = []"
    using assms(3) n i by (rule validate_stock_update)
  from assms(1,2,4,5) d v show ?thesis by (rule increaseStock_stores)
qed

lemma decreaseStock_result:
  assumes "cast rid = Some i" and "lookup db i = Some p" and "validate p = []"
    and "0 < a" and "Number_isInteger a" and "a \<le> stock_quantity p"
    and "stock_quantity p \<le> 2 ^ 53"
  shows "decreaseStock cast db rid (Some a) =
           (replace db (p\<lparr>stock_quantity := stock_quantity p - a\<rparr>), 200,
            ProductJson (p\<lparr>stock_quantity := stock_quantity p - a\<rparr>))"
proof -
  from assms(3) have s: "0 \<le> stock_quantity p" "Number_isInteger (stock_quantity p)"
    using validate_stock by blast+
  with assms have i: "Number_isInteger (stock_quantity p - a)"
    and n: "0 \<le> stock_quantity p - a" and b: "stock_quantity p - a \<le> 2 ^ 53"
    by (simp_all add: Number_isInteger_diff)
  from to_double_safe[OF i n b]
  have d: "to_double (stock_quantity p - a) = Finite (stock_quantity p - a)" .
  have v: "validate (p\<lparr>stock_quantity := stock_quantity p - a\<rparr>) = []"
    using assms(3) n i by (rule validate_stock_update)
  from n have nn: "\<not> stock_quantity p - a < 0" by simp
  from assms(1,2,4,5) d nn v show ?thesis by (rule decreaseStock_stores)
qed

lemma decreaseStock_refused:
  assumes "cast rid = Some i" and "lookup db i = Some p" and "validate p = []"
    and "0 < a" and "Number_isInteger a" and "stock_quantity p - a < 0"
  shows "decreaseStock cast db rid (Some a)
           = (db, 400, ErrorJson (Text ''Insufficient stock''))"
proof -
  from assms(3) have "Number_isInteger (stock_quantity p)"
    using validate_stock by blast
  then have "Number_isInteger (stock_quantity p - a)"
    using assms(5) by (rule Number_isInteger_diff)
  from integer_negative[OF this assms(6)]
  have "double_lt (to_double (stock_quantity p - a)) 0" by (rule double_lt_negative)
  with assms(1,2,4,5) show ?thesis by (rule decreaseStock_refuses)
qed

text \<open>What the store operations return when they succeed.\<close>

lemma save_Inr: "save db p = Inr db' \<Longrightarrow> db' = replace db p \<and> validate p = []"
  by (auto simp add: save_def split: list.splits)

lemma save_new_Inr: "save_new db p = Inr db' \<Longrightarrow> db' = db @ [p] \<and> validate p = []"
  by (auto simp add: save_new_def split: list.splits if_splits)

lemma validate_threshold:
  "validate p = [] \<Longrightarrow> 0 \<le> low_stock_threshold p \<and> Number_isInteger (low_stock_threshold p)"
  by (auto simp add: validate_def validate_low_stock_threshold_def split: if_splits)

lemma validate_update_stock:
  "validate_update u = [] \<Longrightarrow> body_stock_quantity u = Some q \<Longrightarrow> 0 \<le> q \<and> Number_isInteger q"
  by (auto simp add: validate_update_def validate_stock_quantity_def split: if_splits)

lemma validate_apply_update:
  "validate_update u = [] \<Longrightarrow> validate p = [] \<Longrightarrow> validate (apply_update u p) = []"
  by (auto simp add: validate_update_def validate_def apply_update_def split: option.splits)

lemma findByIdAndUpdate_Inr:
  assumes "findByIdAndUpdate cast db rid u = Inr (db', r)"
  shows "validate_update u = [] \<and>
         (\<exists>i. cast rid = Some i \<and>
            (case lookup db i of
               None \<Rightarrow> r = None \<and> db' = db
             | Some p \<Rightarrow> r = Some (apply_update u p) \<and> db' = replace db (apply_update u p)))"
  using assms
  by (auto simp add: findByIdAndUpdate_def split: option.splits list.splits)

text \<open>No handler writes a negative stock.\<close>

lemma createProduct_stock:
  assumes "\<forall>p\<in>set db. 0 \<le> stock_quantity p"
  shows "\<forall>p\<in>set (fst (createProduct db oid b)). 0 \<le> stock_quantity p"
proof (cases "save_new db (new_Product oid b)")
  case (Inl e)
  with assms show ?thesis by (cases e) (auto simp: createProduct_def)
next
  case (Inr db')
  with assms save_new_Inr[OF Inr] validate_stock[of "new_Product oid b"] show ?thesis
    by (auto simp: createProduct_def)
qed

lemma updateProduct_stock:
  assumes "\<forall>p\<in>set db. 0 \<le> stock_quantity p"
  shows "\<forall>p\<in>set (fst (updateProduct cast db rid b)). 0 \<le> stock_quantity p"
proof (cases "findByIdAndUpdate cast db rid b")
  case (Inl e)
  with assms show ?thesis by (cases e) (auto simp: updateProduct_def)
next
  case (Inr x)
  obtain db' r where x: "x = (db', r)" by (cases x)
  from findByIdAndUpdate_Inr[OF Inr[unfolded x]] obtain i where
    v: "validate_update b = []" and i: "cast rid = Some i" and
    c: "case lookup db i of None \<Rightarrow> r = None \<and> db' = db
        | Some p \<Rightarrow> r = Some (apply_update b p) \<and> db' = replace db (apply_update b p)"
    by blast
  have "\<forall>p\<in>set db'. 0 \<le> stock_quantity p"
  proof (cases "lookup db i")
    case None
    with c assms show ?thesis by simp
  next
    case (Some p)
    then have "p \<in> set db" using lookup_SomeD by blast
    then have "0 \<le> stock_quantity (apply_update b p)"
      using assms validate_update_stock[OF v]
      by (auto simp: apply_update_def split: option.splits)
    with Some c assms show ?thesis
      using set_replace[of _ db "apply_update b p"] by auto
  qed
  with assms Inr x show ?thesis
    by (cases r) (auto simp: updateProduct_def)
qed

lemma increaseStock_writes:
  "fst (increaseStock cast db rid amount) = db
     \<or> (\<exists>p. validate p = [] \<and> fst (increaseStock cast db rid amount) = replace db p)"
proof (cases amount)
  case None
  then show ?thesis by (simp add: increaseStock_def not_number_def)
next
  case amount: (Some a)
  show ?thesis
  proof (cases "a \<le> 0 \<or> \<not> Number_isInteger a")
    case True
    with amount show ?thesis
      by (auto simp add: increaseStock_def not_number_def number_le_def)
  next
    case valid: False
    show ?thesis
    proof (cases "cast rid")
      case None
      with amount valid show ?thesis
        by (simp add: increaseStock_def not_number_def number_le_def findById_def)
    next
      case cast: (Some i)
      show ?thesis
      proof (cases "lookup db i")
        case None
        with amount valid cast show ?thesis
          by (simp add: increaseStock_def not_number_def number_le_def findById_def)
      next
        case found: (Some p)
        show ?thesis
        proof (cases "to_double (stock_quantity p + a)")
          case (Finite s)
          show ?thesis
          proof (cases "validate (p\<lparr>stock_quantity := s\<rparr>)")
            case Nil
            with amount valid cast found Finite show ?thesis
              by (auto simp add: increaseStock_def not_number_def number_le_def findById_def
                  save_def)
          next
            case (Cons e es)
            with amount valid cast found Finite show ?thesis
              by (simp add: increaseStock_def not_number_def number_le_def findById_def save_def)
          qed
        next
          case Infinity
          with amount valid cast found show ?thesis
            by (simp add: increaseStock_def not_number_def number_le_def findById_def)
        next
          case MinusInfinity
          with amount valid cast found show ?thesis
            by (simp add: increaseStock_def not_number_def number_le_def findById_def)
        qed
      qed
    qed
  qed
qed

lemma increaseStock_stock:
  assumes "\<forall>p\<in>set db. 0 \<le> stock_quantity p"
  shows "\<forall>p\<in>set (fst (increaseStock cast db rid amount)). 0 \<le> stock_quantity p"
proof -
  from increaseStock_writes[of cast db rid amount] show ?thesis
  proof
    assume "fst (increaseStock cast db rid amount) = db"
    with assms show ?thesis by simp
  next
    assume "\<exists>p. validate p = [] \<and> fst (increaseStock cast db rid amount) = replace db p"
    then obtain p where v: "validate p = []"
      and w: "fst (increaseStock cast db rid amount) = replace db p" by blast
    from v have "0 \<le> stock_quantity p" using validate_stock by blast
    with assms w show ?thesis using set_replace[of _ db p] by auto
  qed
qed

lemma decreaseStock_writes:
  "fst (decreaseStock cast db rid amount) = db
     \<or> (\<exists>p. validate p = [] \<and> fst (decreaseStock cast db rid amount) = replace db p)"
proof (cases amount)
  case None
  then show ?thesis by (simp add: decreaseStock_def not_number_def)
next
  case amount: (Some a)
  show ?thesis
  proof (cases "a \<le> 0 \<or> \<not> Number_isInteger a")
    case True
    with amount show ?thesis
      by (auto simp add: decreaseStock_def not_number_def number_le_def)
  next
    case valid: False
    show ?thesis
    proof (cases "cast rid")
      case None
      with amount valid show ?thesis
        by (simp add: decreaseStock_def not_number_def number_le_def findById_def)
    next
      case cast: (Some i)
      show ?thesis
      proof (cases "lookup db i")
        case None
        with amount valid cast show ?thesis
          by (simp add: decreaseStock_def not_number_def number_le_def findById_def)
      next
        case found: (Some p)
        show ?thesis
        proof (cases "to_double (stock_quantity p - a)")
          case (Finite s)
          show ?thesis
          proof (cases "validate (p\<lparr>stock_quantity := s\<rparr>)")
            case Nil
            with amount valid cast found Finite show ?thesis
              by (auto simp add: decreaseStock_def not_number_def number_le_def findById_def
                  save_def)
          next
            case (Cons e es)
            with amount valid cast found Finite show ?thesis
              by (simp add: decreaseStock_def not_number_def number_le_def findById_def save_def)
          qed
        next
          case Infinity
          with amount valid cast found show ?thesis
            by (simp add: decreaseStock_def not_number_def number_le_def findById_def)
        next
          case MinusInfinity
          with amount valid cast found show ?thesis
            by (simp add: decreaseStock_def not_number_def number_le_def findById_def)
        qed
      qed
    qed
  qed
qed

lemma decreaseStock_stock:
  assumes "\<forall>p\<in>set db. 0 \<le> stock_quantity p"
  shows "\<forall>p\<in>set (fst (decreaseStock cast db rid amount)). 0 \<le> stock_quantity p"
proof -
  from decreaseStock_writes[of cast db rid amount] show ?thesis
  proof
    assume "fst (decreaseStock cast db rid amount) = db"
    with assms show ?thesis by simp
  next
    assume "\<exists>p. validate p = [] \<and> fst (decreaseStock cast db rid amount) = replace db p"
    then obtain p where v: "validate p = []"
      and w: "fst (decreaseStock cast db rid amount) = replace db p" by blast
    from v have "0 \<le> stock_quantity p" using validate_stock by blast
    with assms w show ?thesis using set_replace[of _ db p] by auto
  qed
qed

lemma deleteProduct_writes:
  "fst (deleteProduct cast db rid) = db
     \<or> (\<exists>i. fst (deleteProduct cast db rid) = filter (\<lambda>q. doc_id q \<noteq> i) db)"
proof (cases "cast rid")
  case None
  then show ?thesis by (simp add: deleteProduct_def findByIdAndDelete_def)
next
  case (Some i)
  then show ?thesis
    by (cases "lookup db i") (auto simp add: deleteProduct_def findByIdAndDelete_def)
qed

lemma deleteProduct_stock:
  assumes "\<forall>p\<in>set db. 0 \<le> stock_quantity p"
  shows "\<forall>p\<in>set (fst (deleteProduct cast db rid)). 0 \<le> stock_quantity p"
  using assms deleteProduct_writes[of cast db rid] by auto

lemma getProductById_reads: "fst (getProductById cast db rid) = db"
proof (cases "cast rid")
  case None
  then show ?thesis by (simp add: getProductById_def findById_def)
next
  case (Some i)
  then show ?thesis
    by (cases "lookup db i") (simp_all add: getProductById_def findById_def)
qed

lemma route_stock:
  assumes "\<forall>p\<in>set db. 0 \<le> stock_quantity p"
  shows "\<forall>p\<in>set (fst (route cast db r)). 0 \<le> stock_quantity p"
proof (cases r)
  case GET_low_stock
  with assms show ?thesis by (simp add: getLowStockProducts_def)
next
  case (POST_products oid b)
  with createProduct_stock[OF assms] show ?thesis by simp
next
  case GET_products
  with assms show ?thesis by (simp add: getAllProducts_def)
next
  case (GET_product rid)
  with assms show ?thesis by (simp add: getProductById_reads)
next
  case (PUT_product rid b)
  with updateProduct_stock[OF assms] show ?thesis by simp
next
  case (DELETE_product rid)
  with deleteProduct_stock[OF assms] show ?thesis by simp
next
  case (PATCH_increase rid amount)
  with increaseStock_stock[OF assms] show ?thesis by simp
next
  case (PATCH_decrease rid amount)
  with decreaseStock_stock[OF assms] show ?thesis by simp
qed

text \<open>What creation and update answer when they succeed.\<close>

lemma createProduct_created:
  assumes "fst (snd (createProduct db oid b)) = 201"
  shows "validate (new_Product oid b) = []
       \<and> createProduct db oid b
           = (db @ [new_Product oid b], 201, ProductJson (new_Product oid b))"
proof (cases "not_string (body_name b)")
  case True
  with assms show ?thesis by (simp add: createProduct_def)
next
  case named: False
  show ?thesis
  proof (cases "save_new db (new_Product oid b)")
    case (Inl e)
    with assms named show ?thesis by (cases e) (simp_all add: createProduct_def)
  next
    case (Inr db')
    with named save_new_Inr[OF Inr] show ?thesis by (simp add: createProduct_def)
  qed
qed

lemma updateProduct_checks:
  "updateProduct cast db rid b =
     (if number_lt (body_stock_quantity b) 0
        then (db, 400, ErrorJson (Text ''Stock quantity cannot be negative''))
      else if number_lt (body_low_stock_threshold b) 0
        then (db, 400, ErrorJson (Text ''Low stock threshold cannot be negative''))
      else
        (case findByIdAndUpdate cast db rid b of
           Inr (db', None) \<Rightarrow> (db', 404, ErrorJson (Text ''Product not found''))
         | Inr (db', Some product) \<Rightarrow> (db', 200, ProductJson product)
         | Inl (ValidationError es) \<Rightarrow> (db, 400, ErrorJson (ValidationFailed es))
         | Inl CastError \<Rightarrow> (db, 400, ErrorJson (Text ''Invalid product ID''))
         | Inl _ \<Rightarrow> (db, 500, ErrorJson (Text ''Server error while updating product''))))"
proof -
  have "\<And>x. (x \<noteq> None \<and> number_lt x 0) = number_lt x 0"
    by (auto simp add: number_lt_def split: option.splits)
  then show ?thesis unfolding updateProduct_def by (simp only:)
qed

lemma updateProduct_updated:
  assumes "fst (snd (updateProduct cast db rid b)) = 200"
  shows "\<exists>i p. cast rid = Some i \<and> lookup db i = Some p \<and> validate_update b = []
       \<and> updateProduct cast db rid b
           = (replace db (apply_update b p), 200, ProductJson (apply_update b p))"
proof (cases "number_lt (body_stock_quantity b) 0")
  case True
  with assms show ?thesis by (simp add: updateProduct_checks)
next
  case stock: False
  show ?thesis
  proof (cases "number_lt (body_low_stock_threshold b) 0")
    case True
    with assms stock show ?thesis by (simp add: updateProduct_checks)
  next
    case threshold: False
    have u: "updateProduct cast db rid b =
        (case findByIdAndUpdate cast db rid b of
           Inr (db', None) \<Rightarrow> (db', 404, ErrorJson (Text ''Product not found''))
         | Inr (db', Some product) \<Rightarrow> (db', 200, ProductJson product)
         | Inl (ValidationError es) \<Rightarrow> (db, 400, ErrorJson (ValidationFailed es))
         | Inl CastError \<Rightarrow> (db, 400, ErrorJson (Text ''Invalid product ID''))
         | Inl _ \<Rightarrow> (db, 500, ErrorJson (Text ''Server error while updating product'')))"
      using stock threshold by (simp add: updateProduct_checks)
    show ?thesis
    proof (cases "findByIdAndUpdate cast db rid b")
      case (Inl e)
      with assms u show ?thesis by (cases e) simp_all
    next
      case (Inr x)
      obtain db' r where x: "x = (db', r)" by (cases x)
      from findByIdAndUpdate_Inr[OF Inr[unfolded x]] obtain i where
        v: "validate_update b = []" and i: "cast rid = Some i" and
        c: "case lookup db i of None \<Rightarrow> r = None \<and> db' = db
            | Some p \<Rightarrow> r = Some (apply_update b p) \<and> db' = replace db (apply_update b p)"
        by blast
      show ?thesis
      proof (cases "lookup db i")
        case None
        with c have "r = None" by simp
        with assms u Inr x show ?thesis by simp
      next
        case (Some p)
        with c have "r = Some (apply_update b p)" and "db' = replace db (apply_update b p)"
          by simp_all
        with u Inr x have "updateProduct cast db rid b
           = (replace db (apply_update b p), 200, ProductJson (apply_update b p))"
          by simp
        with i Some v show ?thesis by blast
      qed
    qed
  qed
qed

lemma replace_others:
  "q \<in> set db \<Longrightarrow> doc_id q \<noteq> doc_id p \<Longrightarrow> q \<in> set (replace db p)"
  unfolding replace_def by (induction db) auto

lemma doc_id_apply_update: "doc_id (apply_update u p) = doc_id p"
  by (simp add: apply_update_def)


lemma apply_update_fields:
  "doc_id (apply_update b p) = doc_id p"
  "body_name b = None \<Longrightarrow> name (apply_update b p) = name p"
  "body_description b = None \<Longrightarrow> description (apply_update b p) = description p"
  "body_stock_quantity b = None \<Longrightarrow> stock_quantity (apply_update b p) = stock_quantity p"
  "body_low_stock_threshold b = None
     \<Longrightarrow> low_stock_threshold (apply_update b p) = low_stock_threshold p"
  "body_name b = Some s \<Longrightarrow> name (apply_update b p) = Some (trim s)"
  "body_description b = Some s \<Longrightarrow> description (apply_update b p) = Some (trim s)"
  "body_stock_quantity b = Some q \<Longrightarrow> stock_quantity (apply_update b p) = q"
  "body_low_stock_threshold b = Some t \<Longrightarrow> low_stock_threshold (apply_update b p) = t"
  by (simp_all add: apply_update_def)

lemma validate_update_ok:
  assumes "body_stock_quantity b = Some q" and "0 \<le> q" and "Number_isInteger q"
    and "body_name b = None \<or> (\<exists>s. body_name b = Some s \<and> trim s \<noteq> [])"
    and "body_low_stock_threshold b = None
       \<or> (\<exists>t. body_low_stock_threshold b = Some t \<and> 0 \<le> t \<and> Number_isInteger t)"
  shows "validate_update b = []"
  using assms
  by (auto simp add: validate_update_def validate_name_def not_string_def
      validate_stock_quantity_def validate_low_stock_threshold_def)

subsection \<open>Reachable collections\<close>

text \<open>
  Every handler keeps two properties of the collection: each stored document passes the
  validation of its schema, and no two documents share an id. Both hold of the empty
  collection, so they hold of every collection the router can reach; the properties of
  the stock handlers below are stated for such stored documents.
\<close>

lemma map_doc_id_replace:
  "map doc_id (replace db p) = map doc_id db"
  unfolding replace_def by (induction db) auto

lemma lookup_None: "lookup db i = None \<Longrightarrow> i \<notin> doc_id ` set db"
  unfolding lookup_def by (induction db) (auto split: if_splits)

lemma createProduct_valid:
  assumes "\<forall>p\<in>set db. validate p = []" and "distinct (map doc_id db)"
  shows "(\<forall>p\<in>set (fst (createProduct db oid b)). validate p = [])
       \<and> distinct (map doc_id (fst (createProduct db oid b)))"
proof (cases "not_string (body_name b)")
  case True
  with assms show ?thesis by (simp add: createProduct_def)
next
  case named: False
  show ?thesis
  proof (cases "validate (new_Product oid b)")
    case (Cons e es)
    with assms named show ?thesis by (simp add: createProduct_def save_new_def)
  next
    case Nil
    show ?thesis
    proof (cases "lookup db oid")
      case None
      then have "oid \<notin> doc_id ` set db" by (rule lookup_None)
      moreover have "doc_id (new_Product oid b) = oid" by (simp add: new_Product_def)
      ultimately show ?thesis
        using assms named Nil None by (simp add: createProduct_def save_new_def)
    next
      case (Some p)
      moreover have "doc_id (new_Product oid b) = oid" by (simp add: new_Product_def)
      ultimately show ?thesis
        using assms named Nil by (simp add: createProduct_def save_new_def)
    qed
  qed
qed

lemma replace_valid:
  assumes "\<forall>p\<in>set db. validate p = []" and "distinct (map doc_id db)" and "validate p = []"
  shows "(\<forall>q\<in>set (replace db p). validate q = []) \<and> distinct (map doc_id (replace db p))"
  using assms set_replace[of _ db p] by (auto simp add: map_doc_id_replace)

lemma updateProduct_writes:
  "fst (updateProduct cast db rid b) = db
     \<or> (\<exists>i p. lookup db i = Some p \<and> validate_update b = []
          \<and> fst (updateProduct cast db rid b) = replace db (apply_update b p))"
proof (cases "number_lt (body_stock_quantity b) 0 \<or> number_lt (body_low_stock_threshold b) 0")
  case True
  then show ?thesis by (auto simp add: updateProduct_checks)
next
  case False
  then have u: "updateProduct cast db rid b =
        (case findByIdAndUpdate cast db rid b of
           Inr (db', None) \<Rightarrow> (db', 404, ErrorJson (Text ''Product not found''))
         | Inr (db', Some product) \<Rightarrow> (db', 200, ProductJson product)
         | Inl (ValidationError es) \<Rightarrow> (db, 400, ErrorJson (ValidationFailed es))
         | Inl CastError \<Rightarrow> (db, 400, ErrorJson (Text ''Invalid product ID''))
         | Inl _ \<Rightarrow> (db, 500, ErrorJson (Text ''Server error while updating product'')))"
    by (simp add: updateProduct_checks)
  show ?thesis
  proof (cases "findByIdAndUpdate cast db rid b")
    case (Inl e)
    with u show ?thesis by (cases e) simp_all
  next
    case (Inr x)
    obtain db' r where x: "x = (db', r)" by (cases x)
    from findByIdAndUpdate_Inr[OF Inr[unfolded x]] obtain i where
      v: "validate_update b = []" and
      c: "case lookup db i of None \<Rightarrow> r = None \<and> db' = db
          | Some p \<Rightarrow> r = Some (apply_update b p) \<and> db' = replace db (apply_update b p)"
      by blast
    show ?thesis
    proof (cases "lookup db i")
      case None
      with c u Inr x show ?thesis by simp
    next
      case (Some p)
      with c have "r = Some (apply_update b p)" and "db' = replace db (apply_update b p)"
        by simp_all
      with u Inr x have "fst (updateProduct cast db rid b) = replace db (apply_update b p)"
        by simp
      with Some v show ?thesis by blast
    qed
  qed
qed

lemma updateProduct_valid:
  assumes "\<forall>p\<in>set db. validate p = []" and "distinct (map doc_id db)"
  shows "(\<forall>p\<in>set (fst (updateProduct cast db rid b)). validate p = [])
       \<and> distinct (map doc_id (fst (updateProduct cast db rid b)))"
proof -
  from updateProduct_writes[of cast db rid b] show ?thesis
  proof
    assume "fst (updateProduct cast db rid b) = db"
    with assms show ?thesis by simp
  next
    assume "\<exists>i p. lookup db i = Some p \<and> validate_update b = []
          \<and> fst (updateProduct cast db rid b) = replace db (apply_update b p)"
    then obtain i p where p: "lookup db i = Some p" and v: "validate_update b = []"
      and w: "fst (updateProduct cast db rid b) = replace db (apply_update b p)" by blast
    from p have "p \<in> set db" using lookup_SomeD by blast
    with assms have "validate p = []" by blast
    with v have "validate (apply_update b p) = []" by (rule validate_apply_update)
    with replace_valid[OF assms] w show ?thesis by simp
  qed
qed

lemma increaseStock_valid:
  assumes "\<forall>p\<in>set db. validate p = []" and "distinct (map doc_id db)"
  shows "(\<forall>p\<in>set (fst (increaseStock cast db rid amount)). validate p = [])
       \<and> distinct (map doc_id (fst (increaseStock cast db rid amount)))"
  using increaseStock_writes[of cast db rid amount] assms replace_valid[OF assms] by auto

lemma decreaseStock_valid:
  assumes "\<forall>p\<in>set db. validate p = []" and "distinct (map doc_id db)"
  shows "(\<forall>p\<in>set (fst (decreaseStock cast db rid amount)). validate p = [])
       \<and> distinct (map doc_id (fst (decreaseStock cast db rid amount)))"
  using decreaseStock_writes[of cast db rid amount] assms replace_valid[OF assms] by auto

lemma deleteProduct_valid:
  assumes "\<forall>p\<in>set db. validate p = []" and "distinct (map doc_id db)"
  shows "(\<forall>p\<in>set (fst (deleteProduct cast db rid)). validate p = [])
       \<and> distinct (map doc_id (fst (deleteProduct cast db rid)))"
  using deleteProduct_writes[of cast db rid] assms by (auto simp add: distinct_map_filter)

lemma route_valid:
  assumes "\<forall>p\<in>set db. validate p = []" and "distinct (map doc_id db)"
  shows "(\<forall>p\<in>set (fst (route cast db r)). validate p = [])
       \<and> distinct (map doc_id (fst (route cast db r)))"
proof (cases r)
  case GET_low_stock
  with assms show ?thesis by (simp add: getLowStockProducts_def)
next
  case (POST_products oid b)
  with createProduct_valid[OF assms] show ?thesis by simp
next
  case GET_products
  with assms show ?thesis by (simp add: getAllProducts_def)
next
  case (GET_product rid)
  with assms show ?thesis by (simp add: getProductById_reads)
next
  case (PUT_product rid b)
  with updateProduct_valid[OF assms] show ?thesis by simp
next
  case (DELETE_product rid)
  with deleteProduct_valid[OF assms] show ?thesis by simp
next
  case (PATCH_increase rid amount)
  with increaseStock_valid[OF assms] show ?thesis by simp
next
  case (PATCH_decrease rid amount)
  with decreaseStock_valid[OF assms] show ?thesis by simp
qed

lemma serve_valid:
  assumes "\<forall>p\<in>set db. validate p = []" and "distinct (map doc_id db)"
  shows "(\<forall>p\<in>set (serve cast db rs). validate p = [])
       \<and> distinct (map doc_id (serve cast db rs))"
  using assms
proof (induction rs arbitrary: db)
  case Nil
  then show ?case by simp
next
  case (Cons r rs)
  from route_valid[OF Cons.prems, of cast r]
  have "\<forall>p\<in>set (fst (route cast db r)). validate p = []"
    and "distinct (map doc_id (fst (route cast db r)))" by simp_all
  from Cons.IH[OF this] show ?case by simp
qed

lemma reachable_valid:
  "(\<forall>p\<in>set (serve cast [] rs). validate p = []) \<and> distinct (map doc_id (serve cast [] rs))"
  by (rule serve_valid) simp_all

subsection \<open>Facts for the examples\<close>

lemmas eval_defs = increaseStock_def decreaseStock_def not_number_def number_le_def number_lt_def
  findById_def save_def lookup_def replace_def validate_def validate_name_def not_string_def
  validate_stock_quantity_def validate_low_stock_threshold_def Number_isInteger_def

lemma laptop_fields:
  "doc_id laptop = laptop_id" "name laptop = Some ''Laptop''"
  "description laptop = Some ''Dell XPS 15''"
  "stock_quantity laptop = 50" "low_stock_threshold laptop = 10"
  by (simp_all add: laptop_def)

lemma hex_cast_invalid: "hex_cast ''invalid-id'' = None"
  by (simp add: hex_cast_def)

lemma hex_cast_laptop_id: "hex_cast laptop_id = Some laptop_id"
  by (simp add: hex_cast_def laptop_id_def)

lemma lookup_laptop: "lookup [laptop] laptop_id = Some laptop"
  by (simp add: lookup_def laptop_def)

lemma validate_laptop: "validate laptop = []"
  by (simp add: validate_def validate_name_def not_string_def validate_stock_quantity_def
      validate_low_stock_threshold_def Number_isInteger_def laptop_def)

text \<open>Doubles next to \<open>2 ^ 53 = 9007199254740992\<close>, where the unit is 2.\<close>

lemma exponent_above_2_53:
  "exponent 9007199254740993 = 53" "exponent 9007199254740994 = 53"
  using exponent_eq[of 53 9007199254740993] exponent_eq[of 53 9007199254740994]
  by simp_all

lemma to_double_9007199254740993: "to_double 9007199254740993 = Finite 9007199254740992"
proof -
  have f: "\<lfloor>9007199254740993 / 2 :: rat\<rfloor> = 4503599627370496"
    by (rule floor_unique) simp_all
  have r: "round_half_even (9007199254740993 / 2) = 4503599627370496"
    by (simp add: round_half_even_def f)
  show ?thesis
    by (simp add: to_double_def exponent_above_2_53 Let_def r)
qed


lemma validate_laptop_stock:
  "0 \<le> q \<Longrightarrow> Number_isInteger q \<Longrightarrow> validate (laptop\<lparr>stock_quantity := q\<rparr>) = []"
  using validate_laptop by (rule validate_stock_update)

lemma lookup_laptop_stock:
  "lookup [laptop\<lparr>stock_quantity := q\<rparr>] laptop_id = Some (laptop\<lparr>stock_quantity := q\<rparr>)"
  by (simp add: lookup_def laptop_def)

lemma replace_laptop_stock:
  "replace [laptop\<lparr>stock_quantity := q\<rparr>] (laptop\<lparr>stock_quantity := r\<rparr>)
     = [laptop\<lparr>stock_quantity := r\<rparr>]"
  "replace [laptop] (laptop\<lparr>stock_quantity := r\<rparr>) = [laptop\<lparr>stock_quantity := r\<rparr>]"
  "replace [laptop\<lparr>stock_quantity := q\<rparr>] laptop = [laptop]"
  by (simp_all add: replace_def)

section \<open>Stock adjustment\<close>







text \<open>
  C5, as stated, fails at stock \<open>2 ^ 53 - 1\<close>: an increase by 2 stores the rounded
  sum 9007199254740992, and the decrease by 2 that follows stores 9007199254740990.
  Both answer 200, and the stock is one less than the original 9007199254740991.
\<close>

theorem increase_then_decrease_rounds_counterexample:
  "validate (laptop\<lparr>stock_quantity := 9007199254740991\<rparr>) = []
   \<and> (0::number) < 2 \<and> Number_isInteger 2
   \<and> increaseStock hex_cast [laptop\<lparr>stock_quantity := 9007199254740991\<rparr>] laptop_id (Some 2)
       = ([laptop\<lparr>stock_quantity := 9007199254740992\<rparr>], 200,
          ProductJson (laptop\<lparr>stock_quantity := 9007199254740992\<rparr>))
   \<and> decreaseStock hex_cast [laptop\<lparr>stock_quantity := 9007199254740992\<rparr>] laptop_id (Some 2)
       = ([laptop\<lparr>stock_quantity := 9007199254740990\<rparr>], 200,
          ProductJson (laptop\<lparr>stock_quantity := 9007199254740990\<rparr>))
   \<and> (9007199254740990::number) \<noteq> 9007199254740991"
proof -
  have i: "Number_isInteger 2" "Number_isInteger 9007199254740991"
    "Number_isInteger 9007199254740992" "Number_isInteger 9007199254740990"
    by (simp_all add: Number_isInteger_def)
  have inc: "increaseStock hex_cast [laptop\<lparr>stock_quantity := 9007199254740991\<rparr>] laptop_id (Some 2)
       = ([laptop\<lparr>stock_quantity := 9007199254740992\<rparr>], 200,
          ProductJson (laptop\<lparr>stock_quantity := 9007199254740992\<rparr>))"
    using increaseStock_stores[of hex_cast laptop_id laptop_id
        "[laptop\<lparr>stock_quantity := 9007199254740991\<rparr>]"
        "laptop\<lparr>stock_quantity := 9007199254740991\<rparr>" 2 9007199254740992]
    by (simp add: hex_cast_laptop_id lookup_laptop_stock i to_double_9007199254740993
        validate_laptop_stock replace_laptop_stock)
  have dec: "decreaseStock hex_cast [laptop\<lparr>stock_quantity := 9007199254740992\<rparr>] laptop_id (Some 2)
       = ([laptop\<lparr>stock_quantity := 9007199254740990\<rparr>], 200,
          ProductJson (laptop\<lparr>stock_quantity := 9007199254740990\<rparr>))"
    using decreaseStock_result[of hex_cast laptop_id laptop_id
        "[laptop\<lparr>stock_quantity := 9007199254740992\<rparr>]"
        "laptop\<lparr>stock_quantity := 9007199254740992\<rparr>" 2]
    by (simp add: hex_cast_laptop_id lookup_laptop_stock i validate_laptop_stock
        replace_laptop_stock)
  show ?thesis
    by (simp add: validate_laptop_stock i inc dec)
qed

text \<open>
  C5, amended. Let the id resolve to a stored product \<open>p\<close> that satisfies its schema,
  and let \<open>a\<close> be a positive integer amount such that the stock of \<open>p\<close> plus \<open>a\<close> is at
  most \<open>2 ^ 53\<close>. \<^verbatim>\<open>increaseStock\<close> by \<open>a\<close> followed by \<^verbatim>\<open>decreaseStock\<close> by \<open>a\<close> both
  answer 200, and the collection then holds \<open>p\<close> again for the id, with its original
  stock; when the ids of the collection are distinct the whole collection is the
  original one.
\<close>

theorem increase_then_decrease:
  assumes "cast rid = Some i" and "lookup db i = Some p" and "validate p = []"
    and "0 < a" and "Number_isInteger a" and "stock_quantity p + a \<le> 2 ^ 53"
    and "increaseStock cast db rid (Some a) = (db1, r1)"
    and "decreaseStock cast db1 rid (Some a) = (db2, r2)"
  shows "fst r1 = 200 \<and> fst r2 = 200 \<and> lookup db2 i = Some p
       \<and> (distinct (map doc_id db) \<longrightarrow> db2 = db)"
proof -
  let ?p1 = "p\<lparr>stock_quantity := stock_quantity p + a\<rparr>"
  have inc: "db1 = replace db ?p1" and inc_r: "r1 = (200, ProductJson ?p1)"
    using increaseStock_result[of cast rid i db p a] assms by simp_all
  have l1: "lookup db1 i = Some ?p1"
    using lookup_replace_stock[OF assms(2)] inc by simp
  have s: "0 \<le> stock_quantity p" "Number_isInteger (stock_quantity p)"
    using validate_stock[OF assms(3)] by simp_all
  have v1: "validate ?p1 = []"
    using assms s by (intro validate_stock_update) (auto simp: Number_isInteger_add)
  have restore: "(?p1)\<lparr>stock_quantity := stock_quantity ?p1 - a\<rparr> = p" by simp
  have "decreaseStock cast db1 rid (Some a) = (replace db1 p, 200, ProductJson p)"
    using decreaseStock_result[of cast rid i db1 "?p1" a] assms(1,4,5,6) l1 v1 restore s
    by simp
  then have dec: "db2 = replace db1 p" and dec_r: "r2 = (200, ProductJson p)"
    using assms(8) by simp_all
  have id: "doc_id p = i" using lookup_SomeD[OF assms(2)] by simp
  have l2: "lookup db2 i = Some p"
    using lookup_replace[of db1 p "?p1"] l1 id dec by simp
  have rr: "db2 = replace db p"
    using dec inc replace_replace[of "?p1" p db] by simp
  have "distinct (map doc_id db) \<longrightarrow> db2 = db"
    using rr replace_same[of db p] assms(2) id by simp
  with inc_r dec_r l2 show ?thesis by simp
qed

text \<open>Stock 50, increased by 25 to 75 and decreased by 25: the collection is as before.\<close>

theorem increase_then_decrease_witness:
  "hex_cast laptop_id = Some laptop_id \<and> lookup [laptop] laptop_id = Some laptop
   \<and> validate laptop = [] \<and> (0::number) < 25 \<and> Number_isInteger 25
   \<and> stock_quantity laptop + 25 \<le> 2 ^ 53
   \<and> increaseStock hex_cast [laptop] laptop_id (Some 25)
       = ([laptop\<lparr>stock_quantity := 75\<rparr>], 200, ProductJson (laptop\<lparr>stock_quantity := 75\<rparr>))
   \<and> decreaseStock hex_cast [laptop\<lparr>stock_quantity := 75\<rparr>] laptop_id (Some 25)
       = ([laptop], 200, ProductJson laptop)
   \<and> distinct (map doc_id [laptop])"
proof -
  have i: "Number_isInteger 25" "Number_isInteger 75" by (simp_all add: Number_isInteger_def)
  have b: "stock_quantity laptop + 25 \<le> 2 ^ 53" by (simp add: laptop_fields)
  have l: "laptop\<lparr>stock_quantity := 50\<rparr> = laptop" by (simp add: laptop_def)
  have inc: "increaseStock hex_cast [laptop] laptop_id (Some 25)
       = ([laptop\<lparr>stock_quantity := 75\<rparr>], 200, ProductJson (laptop\<lparr>stock_quantity := 75\<rparr>))"
    using increaseStock_result[of hex_cast laptop_id laptop_id "[laptop]" laptop 25]
    by (simp add: hex_cast_laptop_id lookup_laptop validate_laptop i laptop_fields
        replace_laptop_stock)
  have dec: "decreaseStock hex_cast [laptop\<lparr>stock_quantity := 75\<rparr>] laptop_id (Some 25)
       = ([laptop], 200, ProductJson laptop)"
    using decreaseStock_result[of hex_cast laptop_id laptop_id
        "[laptop\<lparr>stock_quantity := 75\<rparr>]" "laptop\<lparr>stock_quantity := 75\<rparr>" 25]
    by (simp add: hex_cast_laptop_id lookup_laptop_stock validate_laptop_stock i
        replace_laptop_stock l)
  show ?thesis
    using increase_then_decrease[of hex_cast laptop_id laptop_id "[laptop]" laptop 25,
        OF hex_cast_laptop_id lookup_laptop validate_laptop _ i(1) b inc dec]
    by (simp add: hex_cast_laptop_id lookup_laptop validate_laptop i inc dec laptop_fields)
qed

section \<open>Validation of the amount\<close>

text \<open>
  C4, as stated, fails on an amount that is negative and not an integer: the first check
  answers, and the message is the one for a non-positive amount, not the one for a
  non-integer amount.
\<close>

theorem amount_non_integer_negative_counterexample:
  "\<not> Number_isInteger (- 5 / 2)
   \<and> increaseStock hex_cast [laptop] laptop_id (Some (- 5 / 2))
       = ([laptop], 400, ErrorJson (Text ''Amount must be a positive number''))
   \<and> increaseStock hex_cast [laptop] laptop_id (Some (- 5 / 2))
       \<noteq> ([laptop], 400, ErrorJson (Text ''Amount must be an integer''))
   \<and> decreaseStock hex_cast [laptop] laptop_id (Some (- 5 / 2))
       = ([laptop], 400, ErrorJson (Text ''Amount must be a positive number''))
   \<and> decreaseStock hex_cast [laptop] laptop_id (Some (- 5 / 2))
       \<noteq> ([laptop], 400, ErrorJson (Text ''Amount must be an integer''))"
  by (simp add: increaseStock_def decreaseStock_def not_number_def number_le_def
      Number_isInteger_def)

text \<open>
  C4, amended. In \<^verbatim>\<open>increaseStock\<close> and in \<^verbatim>\<open>decreaseStock\<close>, for every collection and
  every id: an amount that is absent, zero or negative is answered with 400
  \<^verbatim>\<open>Amount must be a positive number\<close>; an amount that is positive and not an integer is
  answered with 400 \<^verbatim>\<open>Amount must be an integer\<close>. The collection is returned as it was.
\<close>

theorem amount_validation:
  "(amount = None \<or> amount = Some a \<and> a \<le> 0 \<longrightarrow>
      increaseStock cast db rid amount
        = (db, 400, ErrorJson (Text ''Amount must be a positive number''))
    \<and> decreaseStock cast db rid amount
        = (db, 400, ErrorJson (Text ''Amount must be a positive number'')))
 \<and> (amount = Some a \<and> 0 < a \<and> \<not> Number_isInteger a \<longrightarrow>
      increaseStock cast db rid amount
        = (db, 400, ErrorJson (Text ''Amount must be an integer''))
    \<and> decreaseStock cast db rid amount
        = (db, 400, ErrorJson (Text ''Amount must be an integer'')))"
  by (auto simp add: increaseStock_def decreaseStock_def not_number_def number_le_def)

text \<open>Absent, zero, negative, and the positive non-integer 5/2.\<close>

theorem amount_validation_witness:
  "increaseStock hex_cast [laptop] laptop_id None
     = ([laptop], 400, ErrorJson (Text ''Amount must be a positive number''))
   \<and> decreaseStock hex_cast [laptop] laptop_id None
     = ([laptop], 400, ErrorJson (Text ''Amount must be a positive number''))
   \<and> increaseStock hex_cast [laptop] laptop_id (Some 0)
     = ([laptop], 400, ErrorJson (Text ''Amount must be a positive number''))
   \<and> decreaseStock hex_cast [laptop] laptop_id (Some (- 10))
     = ([laptop], 400, ErrorJson (Text ''Amount must be a positive number''))
   \<and> (0::number) < 5 / 2 \<and> \<not> Number_isInteger (5 / 2)
   \<and> increaseStock hex_cast [laptop] laptop_id (Some (5 / 2))
     = ([laptop], 400, ErrorJson (Text ''Amount must be an integer''))
   \<and> decreaseStock hex_cast [laptop] laptop_id (Some (5 / 2))
     = ([laptop], 400, ErrorJson (Text ''Amount must be an integer''))"
proof -
  have n: "\<not> Number_isInteger (5 / 2)" by (simp add: Number_isInteger_def)
  show ?thesis
    using amount_validation[of None 0 hex_cast "[laptop]" laptop_id]
      amount_validation[of "Some 0" 0 hex_cast "[laptop]" laptop_id]
      amount_validation[of "Some (- 10)" "- 10" hex_cast "[laptop]" laptop_id]
      amount_validation[of "Some (5 / 2)" "5 / 2" hex_cast "[laptop]" laptop_id]
    by (simp add: n)
qed

text \<open>
  C10. In both stock handlers the answer to an amount that is absent, non-positive or
  not an integer is fixed by the amount alone: whatever the caster, the id and the
  collection are, the response is the validation error of the amount and the
  collection is returned as it was. So the answer is the same for a malformed id and
  for an id that no document has, and it does not depend on what is stored.
\<close>

theorem amount_checked_before_lookup:
  assumes "amount = None \<or> amount = Some a \<and> (a \<le> 0 \<or> \<not> Number_isInteger a)"
  shows "increaseStock cast db rid amount =
           (db, 400, ErrorJson (Text (if amount = None \<or> a \<le> 0
              then ''Amount must be a positive number'' else ''Amount must be an integer'')))
       \<and> decreaseStock cast db rid amount =
           (db, 400, ErrorJson (Text (if amount = None \<or> a \<le> 0
              then ''Amount must be a positive number'' else ''Amount must be an integer'')))"
  using assms
  by (auto simp add: increaseStock_def decreaseStock_def not_number_def number_le_def)


text \<open>
  A malformed id gets the error of the amount, not \<^verbatim>\<open>Invalid product ID\<close>; a well-formed
  id on the empty collection gets it too, not \<^verbatim>\<open>Product not found\<close>.
\<close>

theorem amount_checked_before_lookup_witness:
  "hex_cast ''invalid-id'' = None
   \<and> increaseStock hex_cast [laptop] ''invalid-id'' (Some 0)
       = ([laptop], 400, ErrorJson (Text ''Amount must be a positive number''))
   \<and> decreaseStock hex_cast [laptop] ''invalid-id'' (Some (5 / 2))
       = ([laptop], 400, ErrorJson (Text ''Amount must be an integer''))
   \<and> hex_cast laptop_id = Some laptop_id \<and> lookup [] laptop_id = None
   \<and> increaseStock hex_cast [] laptop_id None
       = ([], 400, ErrorJson (Text ''Amount must be a positive number''))
   \<and> decreaseStock hex_cast [] laptop_id (Some (- 10))
       = ([], 400, ErrorJson (Text ''Amount must be a positive number''))"
proof -
  have n: "\<not> Number_isInteger (5 / 2)" by (simp add: Number_isInteger_def)
  show ?thesis
    using amount_checked_before_lookup[of "Some 0" 0 hex_cast "[laptop]" "''invalid-id''"]
      amount_checked_before_lookup[of "Some (5 / 2)" "5 / 2" hex_cast "[laptop]" "''invalid-id''"]
      amount_checked_before_lookup[of None 0 hex_cast "[]" laptop_id]
      amount_checked_before_lookup[of "Some (- 10)" "- 10" hex_cast "[]" laptop_id]
    by (simp add: n hex_cast_invalid hex_cast_laptop_id lookup_def)
qed

section \<open>The stock invariant\<close>

text \<open>
  C2. If no stored product has a negative stock, then after any sequence of requests,
  served one after the other, no stored product has a negative stock: creation, update,
  increase and decrease (and every other route) keep \<open>stock_quantity \<ge> 0\<close> on the whole
  collection, whether the request succeeds or is refused.
\<close>

theorem stock_never_negative:
  assumes "\<forall>p\<in>set db. 0 \<le> stock_quantity p"
  shows "\<forall>p\<in>set (serve cast db rs). 0 \<le> stock_quantity p"
  using assms
proof (induction rs arbitrary: db)
  case Nil
  then show ?case by simp
next
  case (Cons r rs)
  from Cons.prems have "\<forall>p\<in>set (fst (route cast db r)). 0 \<le> stock_quantity p"
    by (rule route_stock)
  then show ?case using Cons.IH by simp
qed


text \<open>
  A refused decrease, a refused update to a negative stock and a decrease to zero, on the
  product with stock 50.
\<close>

theorem stock_never_negative_witness:
  "0 \<le> stock_quantity laptop
   \<and> serve hex_cast [laptop]
        [PATCH_decrease laptop_id (Some 60), PUT_product laptop_id (stock_only (- 5)),
         PATCH_decrease laptop_id (Some 50)]
       = [laptop\<lparr>stock_quantity := 0\<rparr>]
   \<and> 0 \<le> stock_quantity (laptop\<lparr>stock_quantity := 0\<rparr>)"
proof -
  have i: "Number_isInteger 60" "Number_isInteger 50" by (simp_all add: Number_isInteger_def)
  have d60: "decreaseStock hex_cast [laptop] laptop_id (Some 60)
       = ([laptop], 400, ErrorJson (Text ''Insufficient stock''))"
    using decreaseStock_refused[of hex_cast laptop_id laptop_id "[laptop]" laptop 60]
    by (simp add: hex_cast_laptop_id lookup_laptop validate_laptop i laptop_fields)
  have upd: "updateProduct hex_cast [laptop] laptop_id (stock_only (- 5))
       = ([laptop], 400, ErrorJson (Text ''Stock quantity cannot be negative''))"
    by (simp add: updateProduct_def number_lt_def stock_only_def)
  have d50: "decreaseStock hex_cast [laptop] laptop_id (Some 50)
       = ([laptop\<lparr>stock_quantity := 0\<rparr>], 200, ProductJson (laptop\<lparr>stock_quantity := 0\<rparr>))"
    using decreaseStock_result[of hex_cast laptop_id laptop_id "[laptop]" laptop 50]
    by (simp add: hex_cast_laptop_id lookup_laptop validate_laptop i laptop_fields
        replace_laptop_stock)
  have run: "serve hex_cast [laptop]
        [PATCH_decrease laptop_id (Some 60), PUT_product laptop_id (stock_only (- 5)),
         PATCH_decrease laptop_id (Some 50)]
       = [laptop\<lparr>stock_quantity := 0\<rparr>]"
    by (simp add: d60 upd d50)
  show ?thesis
    using stock_never_negative[of "[laptop]" hex_cast
        "[PATCH_decrease laptop_id (Some 60), PUT_product laptop_id (stock_only (- 5)),
          PATCH_decrease laptop_id (Some 50)]"]
    unfolding run by (simp add: laptop_fields)
qed

section \<open>The low-stock query\<close>

text \<open>
  C3. \<^verbatim>\<open>getLowStockProducts\<close> answers 200 with a list that holds a product exactly when
  the product is stored and its stock is strictly below its threshold; a stored product
  whose stock equals its threshold is not in the list; when no stored product
  qualifies the list is empty and the status is still 200. The collection is unchanged.
\<close>

theorem low_stock_query:
  "\<exists>ps. getLowStockProducts db = (db, 200, ProductListJson ps)
     \<and> (\<forall>p. p \<in> set ps \<longleftrightarrow> p \<in> set db \<and> stock_quantity p < low_stock_threshold p)
     \<and> (\<forall>p\<in>set db. stock_quantity p = low_stock_threshold p \<longrightarrow> p \<notin> set ps)
     \<and> ((\<forall>p\<in>set db. \<not> stock_quantity p < low_stock_threshold p) \<longrightarrow> ps = [])"
  by (auto simp add: getLowStockProducts_def find_all_def filter_empty_conv)

text \<open>
  The three products of the test with one more at its threshold: the first two are
  returned. The well-stocked product alone: the empty list.
\<close>

theorem low_stock_query_witness:
  "getLowStockProducts [low_stock_1, low_stock_2, normal_stock, at_threshold]
     = ([low_stock_1, low_stock_2, normal_stock, at_threshold], 200,
        ProductListJson [low_stock_1, low_stock_2])
   \<and> stock_quantity at_threshold = low_stock_threshold at_threshold
   \<and> at_threshold \<notin> set [low_stock_1, low_stock_2]
   \<and> \<not> stock_quantity normal_stock < low_stock_threshold normal_stock
   \<and> getLowStockProducts [normal_stock] = ([normal_stock], 200, ProductListJson [])"
proof -
  have f: "stock_quantity low_stock_1 < low_stock_threshold low_stock_1"
    "stock_quantity low_stock_2 < low_stock_threshold low_stock_2"
    "\<not> stock_quantity normal_stock < low_stock_threshold normal_stock"
    "stock_quantity at_threshold = low_stock_threshold at_threshold"
    by (simp_all add: low_stock_1_def low_stock_2_def normal_stock_def at_threshold_def)
  have q: "getLowStockProducts [low_stock_1, low_stock_2, normal_stock, at_threshold]
     = ([low_stock_1, low_stock_2, normal_stock, at_threshold], 200,
        ProductListJson [low_stock_1, low_stock_2])"
    by (simp add: getLowStockProducts_def find_all_def f)
  from low_stock_query[of "[low_stock_1, low_stock_2, normal_stock, at_threshold]"] q
  have a: "at_threshold \<notin> set [low_stock_1, low_stock_2]"
    using f(4) by auto
  from low_stock_query[of "[normal_stock]"] f(3)
  have e: "getLowStockProducts [normal_stock] = ([normal_stock], 200, ProductListJson [])"
    by auto
  from q f a e show ?thesis by simp
qed

section \<open>Creation\<close>

text \<open>
  C9. Whenever \<^verbatim>\<open>createProduct\<close> answers 201, the product it returns has been appended to
  the collection, and in it a stock the body left out is 0, a threshold the body left
  out is 10, a description the body left out is absent, a supplied stock or threshold
  is the stored one, and stock and threshold are both non-negative.
\<close>

theorem createProduct_defaults:
  assumes "fst (snd (createProduct db oid b)) = 201"
  shows "\<exists>p. createProduct db oid b = (db @ [p], 201, ProductJson p)
     \<and> (body_stock_quantity b = None \<longrightarrow> stock_quantity p = 0)
     \<and> (body_low_stock_threshold b = None \<longrightarrow> low_stock_threshold p = 10)
     \<and> (body_description b = None \<longrightarrow> description p = None)
     \<and> (\<forall>q. body_stock_quantity b = Some q \<longrightarrow> stock_quantity p = q)
     \<and> (\<forall>t. body_low_stock_threshold b = Some t \<longrightarrow> low_stock_threshold p = t)
     \<and> 0 \<le> stock_quantity p \<and> 0 \<le> low_stock_threshold p"
proof -
  from createProduct_created[OF assms]
  have v: "validate (new_Product oid b) = []"
    and c: "createProduct db oid b
           = (db @ [new_Product oid b], 201, ProductJson (new_Product oid b))"
    by simp_all
  have "0 \<le> stock_quantity (new_Product oid b)"
    and "0 \<le> low_stock_threshold (new_Product oid b)"
    using validate_stock[OF v] validate_threshold[OF v] by simp_all
  with c show ?thesis
    by (intro exI[of _ "new_Product oid b"]) (simp add: new_Product_def)
qed

text \<open>A body with a name only: the product is created with stock 0 and threshold 10.\<close>

theorem createProduct_defaults_witness:
  "createProduct [] laptop_id (name_only ''Test Product'')
     = ([\<lparr> doc_id = laptop_id, name = Some ''Test Product'', description = None,
            stock_quantity = 0, low_stock_threshold = 10 \<rparr>], 201,
        ProductJson \<lparr> doc_id = laptop_id, name = Some ''Test Product'', description = None,
            stock_quantity = 0, low_stock_threshold = 10 \<rparr>)
   \<and> body_stock_quantity (name_only ''Test Product'') = None
   \<and> body_low_stock_threshold (name_only ''Test Product'') = None
   \<and> body_description (name_only ''Test Product'') = None"
proof -
  have t: "trim ''Test Product'' = ''Test Product''"
    by (simp add: trim_def is_white_space_def)
  have n: "new_Product laptop_id (name_only ''Test Product'')
      = \<lparr> doc_id = laptop_id, name = Some ''Test Product'', description = None,
            stock_quantity = 0, low_stock_threshold = 10 \<rparr>"
    by (simp add: new_Product_def name_only_def t)
  have c: "createProduct [] laptop_id (name_only ''Test Product'')
     = ([new_Product laptop_id (name_only ''Test Product'')], 201,
        ProductJson (new_Product laptop_id (name_only ''Test Product'')))"
    unfolding n
    by (simp add: createProduct_def save_new_def eval_defs n)
       (simp add: name_only_def not_string_def)
  show ?thesis
    using createProduct_defaults[of "[]" laptop_id "name_only ''Test Product''"] c
    by (simp add: n) (simp add: name_only_def)
qed

section \<open>General update\<close>

text \<open>
  C8. Whenever \<^verbatim>\<open>updateProduct\<close> answers 200, the id resolves to a stored product
  \<open>p\<close>, the response carries the updated product \<open>p'\<close>, and the collection holds
  \<open>p'\<close> for the id. \<open>p'\<close> has the id of \<open>p\<close>; each of name, description, stock and
  threshold that the body leaves out has in \<open>p'\<close> the value it had in \<open>p\<close>; each one the
  body supplies has the supplied value (strings trimmed). Documents with another id
  stay in the collection.
\<close>

theorem updateProduct_frame:
  assumes "fst (snd (updateProduct cast db rid b)) = 200"
  shows "\<exists>i p p'. cast rid = Some i \<and> lookup db i = Some p
     \<and> updateProduct cast db rid b = (replace db p', 200, ProductJson p')
     \<and> lookup (replace db p') i = Some p'
     \<and> doc_id p' = doc_id p
     \<and> (body_name b = None \<longrightarrow> name p' = name p)
     \<and> (body_description b = None \<longrightarrow> description p' = description p)
     \<and> (body_stock_quantity b = None \<longrightarrow> stock_quantity p' = stock_quantity p)
     \<and> (body_low_stock_threshold b = None \<longrightarrow> low_stock_threshold p' = low_stock_threshold p)
     \<and> (\<forall>s. body_name b = Some s \<longrightarrow> name p' = Some (trim s))
     \<and> (\<forall>s. body_description b = Some s \<longrightarrow> description p' = Some (trim s))
     \<and> (\<forall>q. body_stock_quantity b = Some q \<longrightarrow> stock_quantity p' = q)
     \<and> (\<forall>t. body_low_stock_threshold b = Some t \<longrightarrow> low_stock_threshold p' = t)
     \<and> (\<forall>q\<in>set db. doc_id q \<noteq> i \<longrightarrow> q \<in> set (replace db p'))"
proof -
  from updateProduct_updated[OF assms] obtain i p where
    i: "cast rid = Some i" and p: "lookup db i = Some p" and
    u: "updateProduct cast db rid b
           = (replace db (apply_update b p), 200, ProductJson (apply_update b p))"
    by blast
  let ?p' = "apply_update b p"
  have id: "doc_id ?p' = i" using lookup_SomeD[OF p] by (simp add: doc_id_apply_update)
  have l: "lookup (replace db ?p') i = Some ?p'"
    using lookup_replace[of db ?p' p] p id by simp
  have others: "\<forall>q\<in>set db. doc_id q \<noteq> i \<longrightarrow> q \<in> set (replace db ?p')"
    using replace_others[of _ db ?p'] id by simp
  have body: "cast rid = Some i \<and> lookup db i = Some p
     \<and> updateProduct cast db rid b = (replace db ?p', 200, ProductJson ?p')
     \<and> lookup (replace db ?p') i = Some ?p'
     \<and> doc_id ?p' = doc_id p
     \<and> (body_name b = None \<longrightarrow> name ?p' = name p)
     \<and> (body_description b = None \<longrightarrow> description ?p' = description p)
     \<and> (body_stock_quantity b = None \<longrightarrow> stock_quantity ?p' = stock_quantity p)
     \<and> (body_low_stock_threshold b = None \<longrightarrow> low_stock_threshold ?p' = low_stock_threshold p)
     \<and> (\<forall>s. body_name b = Some s \<longrightarrow> name ?p' = Some (trim s))
     \<and> (\<forall>s. body_description b = Some s \<longrightarrow> description ?p' = Some (trim s))
     \<and> (\<forall>q. body_stock_quantity b = Some q \<longrightarrow> stock_quantity ?p' = q)
     \<and> (\<forall>t. body_low_stock_threshold b = Some t \<longrightarrow> low_stock_threshold ?p' = t)
     \<and> (\<forall>q\<in>set db. doc_id q \<noteq> i \<longrightarrow> q \<in> set (replace db ?p'))"
    using i p u l others by (intro conjI impI allI) (simp_all add: apply_update_fields)
  show ?thesis
    apply (rule exI[of _ i])
    apply (rule exI[of _ p])
    apply (rule exI[of _ "apply_update b p"])
    apply (rule body)
    done
qed


text \<open>
  The README's update of name and stock: description and threshold are the old ones.
\<close>

theorem updateProduct_frame_witness:
  "fst (snd (updateProduct hex_cast [laptop] laptop_id rename_and_restock)) = 200
   \<and> body_description rename_and_restock = None
   \<and> body_low_stock_threshold rename_and_restock = None
   \<and> updateProduct hex_cast [laptop] laptop_id rename_and_restock
       = ([\<lparr> doc_id = laptop_id, name = Some ''Laptop Pro'',
              description = Some ''Dell XPS 15'', stock_quantity = 75,
              low_stock_threshold = 10 \<rparr>], 200,
          ProductJson \<lparr> doc_id = laptop_id, name = Some ''Laptop Pro'',
              description = Some ''Dell XPS 15'', stock_quantity = 75,
              low_stock_threshold = 10 \<rparr>)"
proof -
  have t: "trim ''Laptop Pro'' = ''Laptop Pro''"
    by (simp add: trim_def is_white_space_def)
  have v: "validate_update rename_and_restock = []"
    by (simp add: validate_update_def rename_and_restock_def t validate_name_def not_string_def
        validate_stock_quantity_def Number_isInteger_def)
  have a: "apply_update rename_and_restock laptop
      = \<lparr> doc_id = laptop_id, name = Some ''Laptop Pro'',
              description = Some ''Dell XPS 15'', stock_quantity = 75,
              low_stock_threshold = 10 \<rparr>"
    by (simp add: apply_update_def rename_and_restock_def t laptop_def)
  have f: "findByIdAndUpdate hex_cast [laptop] laptop_id rename_and_restock
      = Inr ([apply_update rename_and_restock laptop], Some (apply_update rename_and_restock laptop))"
    by (simp add: findByIdAndUpdate_def hex_cast_laptop_id v lookup_laptop replace_def
        doc_id_apply_update)
  have n: "\<not> number_lt (body_stock_quantity rename_and_restock) 0"
    "\<not> number_lt (body_low_stock_threshold rename_and_restock) 0"
    by (simp_all add: number_lt_def rename_and_restock_def)
  have u: "updateProduct hex_cast [laptop] laptop_id rename_and_restock
      = ([apply_update rename_and_restock laptop], 200,
         ProductJson (apply_update rename_and_restock laptop))"
    by (simp add: updateProduct_checks n f)
  have s: "fst (snd (updateProduct hex_cast [laptop] laptop_id rename_and_restock)) = 200"
    by (simp add: u)
  have b: "body_description rename_and_restock = None"
    "body_low_stock_threshold rename_and_restock = None"
    by (simp_all add: rename_and_restock_def)
  from updateProduct_frame[OF s] u a s b show ?thesis by simp
qed

text \<open>
  C7, as stated, fails on a non-negative stock that is not an integer: the update
  validators of the schema run (\<^verbatim>\<open>runValidators: true\<close>) and refuse it with a
  \<^verbatim>\<open>ValidationError\<close>.
\<close>

theorem updateProduct_non_integer_counterexample:
  "(0::number) \<le> 1 / 2
   \<and> updateProduct hex_cast [laptop] laptop_id (stock_only (1 / 2))
       = ([laptop], 400,
          ErrorJson (ValidationFailed
            [(''stock_quantity'', ''Stock quantity must be an integer'')]))"
  by (simp add: updateProduct_def findByIdAndUpdate_def hex_cast_laptop_id stock_only_def
      number_lt_def validate_update_def validate_stock_quantity_def Number_isInteger_def)

text \<open>
  C7, amended. Let the id resolve to a stored product and let the body supply a stock
  that is a non-negative integer, with a name that is absent or not blank and a threshold
  that is absent or a non-negative integer. Then \<^verbatim>\<open>updateProduct\<close> answers 200 and the
  product has the supplied stock, whatever the stock was before: there is no check
  against the current quantity. A supplied negative stock is answered with 400
  \<^verbatim>\<open>Stock quantity cannot be negative\<close>; a supplied negative threshold is answered with
  400 and \<^verbatim>\<open>Low stock threshold cannot be negative\<close>, or with the message for the stock
  when that is negative too. In both cases the collection is returned as it was.
\<close>

theorem updateProduct_sets_stock:
  "(cast rid = Some i \<and> lookup db i = Some p
      \<and> body_stock_quantity b = Some q \<and> 0 \<le> q \<and> Number_isInteger q
      \<and> (body_name b = None \<or> (\<exists>s. body_name b = Some s \<and> trim s \<noteq> []))
      \<and> (body_low_stock_threshold b = None
           \<or> (\<exists>t. body_low_stock_threshold b = Some t \<and> 0 \<le> t \<and> Number_isInteger t))
    \<longrightarrow> updateProduct cast db rid b
          = (replace db (apply_update b p), 200, ProductJson (apply_update b p))
        \<and> stock_quantity (apply_update b p) = q)
   \<and> (body_stock_quantity b = Some q \<and> q < 0
    \<longrightarrow> updateProduct cast db rid b
          = (db, 400, ErrorJson (Text ''Stock quantity cannot be negative'')))
   \<and> (body_low_stock_threshold b = Some t \<and> t < 0
    \<longrightarrow> updateProduct cast db rid b
          = (db, 400, ErrorJson (Text
              (if number_lt (body_stock_quantity b) 0 then ''Stock quantity cannot be negative''
               else ''Low stock threshold cannot be negative''))))"
proof (intro conjI impI)
  assume a: "cast rid = Some i \<and> lookup db i = Some p
      \<and> body_stock_quantity b = Some q \<and> 0 \<le> q \<and> Number_isInteger q
      \<and> (body_name b = None \<or> (\<exists>s. body_name b = Some s \<and> trim s \<noteq> []))
      \<and> (body_low_stock_threshold b = None
           \<or> (\<exists>t. body_low_stock_threshold b = Some t \<and> 0 \<le> t \<and> Number_isInteger t))"
  then have v: "validate_update b = []" using validate_update_ok[of b q] by blast
  from a have n: "\<not> number_lt (body_stock_quantity b) 0"
    "\<not> number_lt (body_low_stock_threshold b) 0"
    by (auto simp add: number_lt_def)
  from a v have f: "findByIdAndUpdate cast db rid b
      = Inr (replace db (apply_update b p), Some (apply_update b p))"
    by (simp add: findByIdAndUpdate_def)
  show "updateProduct cast db rid b
          = (replace db (apply_update b p), 200, ProductJson (apply_update b p))"
    by (simp add: updateProduct_checks n f)
  from a show "stock_quantity (apply_update b p) = q"
    by (simp add: apply_update_fields)
next
  assume "body_stock_quantity b = Some q \<and> q < 0"
  then show "updateProduct cast db rid b
          = (db, 400, ErrorJson (Text ''Stock quantity cannot be negative''))"
    by (simp add: updateProduct_checks number_lt_def)
next
  assume "body_low_stock_threshold b = Some t \<and> t < 0"
  then have "number_lt (body_low_stock_threshold b) 0" by (simp add: number_lt_def)
  then show "updateProduct cast db rid b
          = (db, 400, ErrorJson (Text
              (if number_lt (body_stock_quantity b) 0 then ''Stock quantity cannot be negative''
               else ''Low stock threshold cannot be negative'')))"
    by (simp add: updateProduct_checks)
qed

text \<open>
  Stock 50 set to 10 by an update; stock or threshold set to -1 refused.
\<close>

theorem updateProduct_sets_stock_witness:
  "hex_cast laptop_id = Some laptop_id \<and> lookup [laptop] laptop_id = Some laptop
   \<and> body_stock_quantity (stock_only 10) = Some 10 \<and> (0::number) \<le> 10
   \<and> Number_isInteger 10 \<and> body_name (stock_only 10) = None
   \<and> body_low_stock_threshold (stock_only 10) = None
   \<and> 10 < stock_quantity laptop
   \<and> updateProduct hex_cast [laptop] laptop_id (stock_only 10)
       = ([laptop\<lparr>stock_quantity := 10\<rparr>], 200, ProductJson (laptop\<lparr>stock_quantity := 10\<rparr>))
   \<and> updateProduct hex_cast [laptop] laptop_id (stock_only (- 1))
       = ([laptop], 400, ErrorJson (Text ''Stock quantity cannot be negative''))
   \<and> updateProduct hex_cast [laptop] laptop_id (threshold_only (- 1))
       = ([laptop], 400, ErrorJson (Text ''Low stock threshold cannot be negative''))"
proof -
  have i: "Number_isInteger 10" by (simp add: Number_isInteger_def)
  have a: "apply_update (stock_only 10) laptop = laptop\<lparr>stock_quantity := 10\<rparr>"
    by (simp add: apply_update_def stock_only_def)
  have r: "replace [laptop] (laptop\<lparr>stock_quantity := 10\<rparr>) = [laptop\<lparr>stock_quantity := 10\<rparr>]"
    by (simp add: replace_def)
  have b: "body_stock_quantity (stock_only 10) = Some 10" "body_name (stock_only 10) = None"
    "body_low_stock_threshold (stock_only 10) = None"
    "body_stock_quantity (stock_only (- 1)) = Some (- 1)"
    "body_low_stock_threshold (threshold_only (- 1)) = Some (- 1)"
    "body_stock_quantity (threshold_only (- 1)) = None"
    by (simp_all add: stock_only_def threshold_only_def)
  have n: "\<not> number_lt None 0" by (simp add: number_lt_def)
  show ?thesis
    using updateProduct_sets_stock[of hex_cast laptop_id laptop_id "[laptop]" laptop
        "stock_only 10" 10 0]
      updateProduct_sets_stock[of hex_cast laptop_id laptop_id "[laptop]" laptop
        "stock_only (- 1)" "- 1" 0]
      updateProduct_sets_stock[of hex_cast laptop_id laptop_id "[laptop]" laptop
        "threshold_only (- 1)" 0 "- 1"]
    by (simp add: hex_cast_laptop_id lookup_laptop i a r b n laptop_fields)
qed

end
